theory Spec2Isabelle
  imports Complex_Main "HOL-Library.Monad_Syntax"
begin

section \<open>Python strings (ASCII fragment)\<close>

text \<open>
  A Python \<open>str\<close> is modelled as a \<open>string\<close> whose characters are read as ASCII code
  points.  The helpers below follow \<open>str.isspace\<close>, \<open>str.lower\<close> and the regular
  expression class \<open>\w\<close> on code points below 128; a character from 128 upwards is
  neither whitespace nor a word character and has no case.
\<close>

definition is_space :: "char \<Rightarrow> bool" where
  "is_space c \<longleftrightarrow> c \<in> set [CHR 0x09, CHR 0x0A, CHR 0x0B, CHR 0x0C, CHR 0x0D,
                          CHR 0x1C, CHR 0x1D, CHR 0x1E, CHR 0x1F, CHR '' '']"

definition is_upper :: "char \<Rightarrow> bool" where
  "is_upper c \<longleftrightarrow> c \<in> set ''ABCDEFGHIJKLMNOPQRSTUVWXYZ''"

definition is_lower :: "char \<Rightarrow> bool" where
  "is_lower c \<longleftrightarrow> c \<in> set ''abcdefghijklmnopqrstuvwxyz''"

definition is_digit :: "char \<Rightarrow> bool" where
  "is_digit c \<longleftrightarrow> c \<in> set ''0123456789''"

definition is_word :: "char \<Rightarrow> bool" where
  "is_word c \<longleftrightarrow> is_digit c \<or> is_upper c \<or> is_lower c \<or> c = CHR ''_''"

definition lower_char :: "char \<Rightarrow> char" where
  "lower_char c =
     (case map_of (zip ''ABCDEFGHIJKLMNOPQRSTUVWXYZ'' ''abcdefghijklmnopqrstuvwxyz'') c of
        Some l \<Rightarrow> l
      | None \<Rightarrow> c)"

definition lower :: "string \<Rightarrow> string" where
  "lower s = map lower_char s"

definition strip :: "string \<Rightarrow> string" where
  "strip s = rev (dropWhile is_space (rev (dropWhile is_space s)))"

text \<open>\<open>re.findall(r'\b\w+\b', s)\<close>: the maximal runs of word characters, left to right.\<close>

function findall_words :: "string \<Rightarrow> string list" where
  "findall_words [] = []"
| "findall_words (c # cs) =
     (if is_word c then (c # takeWhile is_word cs) # findall_words (dropWhile is_word cs)
      else findall_words cs)"
  by pat_completeness auto
termination
  by (relation "measure length") (auto simp: length_dropWhile_le less_Suc_eq_le)

section \<open>Python floats\<close>

text \<open>
  A float is modelled as the rational number it denotes.  An arithmetic operation on floats
  is the exact operation followed by \<open>fl\<close>, the rounding to the nearest number with a
  53-bit significand, ties to the even one (IEEE 754 binary64).  The limits of the exponent
  are not modelled: no overflow, no underflow, no infinity, no NaN.  Comparisons are exact.
\<close>

text \<open>The number of binary digits of a positive integer.\<close>

function bits :: "int \<Rightarrow> nat" where
  "bits n = (if n \<le> 0 then 0 else Suc (bits (n div 2)))"
  by pat_completeness auto
termination
  by (relation "measure nat") auto

declare bits.simps [simp del]

definition pow2 :: "int \<Rightarrow> rat" where
  "pow2 e = (if e \<ge> 0 then 2 ^ nat e else 1 / 2 ^ nat (- e))"

definition round_half_even :: "rat \<Rightarrow> int" where
  "round_half_even y =
     (let f = \<lfloor>y\<rfloor>; d = y - of_int f
      in if d < 1 / 2 then f else if d > 1 / 2 then f + 1 else if even f then f else f + 1)"

definition fl :: "rat \<Rightarrow> rat" where
  "fl x =
     (if x = 0 then 0
      else
        let a = \<bar>x\<bar>;
            k = int (bits (fst (quotient_of a))) - int (bits (snd (quotient_of a)));
            e = (if pow2 k \<le> a then k else k - 1) - 52;
            m = round_half_even (a / pow2 e)
        in sgn x * of_int m * pow2 e)"

section \<open>Sentiment analyzer (analyse-sentiment.py)\<close>

text \<open>
  The weights \<open>1.0\<close> and \<open>1.5\<close> and their sums are exact in binary floating point; the
  two divisions and the subtraction round.
\<close>

definition positive_words :: "string set" where
  "positive_words = set [''good'', ''great'', ''excellent'', ''amazing'', ''awesome'', ''fantastic'',
     ''wonderful'', ''brilliant'', ''perfect'', ''love'', ''best'', ''incredible'',
     ''outstanding'', ''remarkable'', ''superb'', ''marvelous'', ''exciting'',
     ''revolutionizing'', ''successful'', ''future'', ''exciting'']"

definition negative_words :: "string set" where
  "negative_words = set [''bad'', ''terrible'', ''awful'', ''horrible'', ''worst'', ''hate'', ''disgusting'',
     ''pathetic'', ''useless'', ''boring'', ''disappointing'', ''frustrating'',
     ''annoying'', ''broken'', ''failed'', ''error'', ''problem'', ''issue'']"

definition intensifiers :: "string set" where
  "intensifiers = set [''very'', ''extremely'', ''really'', ''totally'', ''completely'', ''absolutely'',
     ''quite'', ''rather'', ''pretty'', ''so'', ''too'']"

text \<open>
  One iteration of \<open>for i, word in enumerate(words)\<close> on the pair
  \<open>(positive_score, negative_score)\<close>.
\<close>

definition score_step :: "string list \<Rightarrow> nat \<Rightarrow> rat \<times> rat \<Rightarrow> rat \<times> rat" where
  "score_step words i acc =
     (let word = words ! i;
          intensifier = (if i > 0 \<and> words ! (i - 1) \<in> intensifiers then 3 / 2 else 1)
      in if word \<in> positive_words then (fst acc + intensifier, snd acc)
         else if word \<in> negative_words then (fst acc, snd acc + intensifier)
         else acc)"

text \<open>What iteration \<open>i\<close> adds to the two scores: the loop body run on zero scores.\<close>

definition contribution :: "string list \<Rightarrow> nat \<Rightarrow> rat \<times> rat" where
  "contribution words i = score_step words i (0, 0)"

definition score_loop :: "string list \<Rightarrow> rat \<times> rat" where
  "score_loop words = fold (score_step words) [0..<length words] (0, 0)"

definition analyze_sentiment :: "string \<Rightarrow> rat" where
  "analyze_sentiment text =
     (if text = [] then 0
      else
        let words = findall_words (lower text);
            (positive_score, negative_score) = score_loop words;
            total_words = length words
        in if total_words = 0 then 0
           else
             let positive_normalized = fl (positive_score / of_nat total_words);
                 negative_normalized = fl (negative_score / of_nat total_words);
                 sentiment_score = fl (positive_normalized - negative_normalized)
             in max (- 1) (min 1 sentiment_score))"

datatype label = Positive | Negative | Neutral

text \<open>The literals \<open>0.1\<close> and \<open>-0.1\<close> are the floats next to one tenth.\<close>

definition get_sentiment_label :: "rat \<Rightarrow> label" where
  "get_sentiment_label score =
     (if score > fl (1 / 10) then Positive
      else if score < - fl (1 / 10) then Negative
      else Neutral)"

section \<open>Hashtag trends (hastag-tendance.py)\<close>

text \<open>
  The cleaning of one hashtag in \<open>HashtagMapper.map_hashtags\<close>:
  \<open>hashtag.strip().lower()\<close>, then one leading \<open>#\<close> is cut off.
\<close>

definition clean_hashtag :: "string \<Rightarrow> string" where
  "clean_hashtag hashtag =
     (let clean = lower (strip hashtag)
      in case clean of
           [] \<Rightarrow> clean
         | c # cs \<Rightarrow> if c = CHR ''#'' then cs else clean)"

text \<open>The loop over the hashtags of one tweet, for a month key already computed.\<close>

definition hashtag_results :: "string \<Rightarrow> string list \<Rightarrow> (string \<times> string) list" where
  "hashtag_results month_key hashtags =
     map (\<lambda>h. (month_key, h)) (filter (\<lambda>h. h \<noteq> []) (map clean_hashtag hashtags))"

text \<open>
  Python dictionaries keep insertion order; \<open>defaultdict(list)\<close> and \<open>Counter\<close> are
  modelled as association lists in insertion order with distinct keys.
\<close>

fun dict_append :: "'k \<Rightarrow> 'v \<Rightarrow> ('k \<times> 'v list) list \<Rightarrow> ('k \<times> 'v list) list" where
  "dict_append k v [] = [(k, [v])]"
| "dict_append k v ((k', vs) # rest) =
     (if k = k' then (k', vs @ [v]) # rest else (k', vs) # dict_append k v rest)"

fun counter_add :: "'a \<Rightarrow> int \<Rightarrow> ('a \<times> int) list \<Rightarrow> ('a \<times> int) list" where
  "counter_add x n [] = [(x, n)]"
| "counter_add x n ((y, c) # rest) =
     (if x = y then (y, c + n) # rest else (y, c) # counter_add x n rest)"

definition Counter :: "'a list \<Rightarrow> ('a \<times> int) list" where
  "Counter xs = fold (\<lambda>x. counter_add x 1) xs []"

text \<open>
  \<open>Counter.most_common(n)\<close> is \<open>heapq.nlargest(n, items, key=count)\<close>, documented as
  \<open>sorted(items, key=count, reverse=True)[:n]\<close>: a stable sort by descending count.
  \<open>most_common()\<close> without argument is the same sort without the cut.
\<close>

definition sorted_desc :: "('a \<times> int) list \<Rightarrow> ('a \<times> int) list" where
  "sorted_desc items = sort_key (\<lambda>item. - snd item) items"

definition most_common :: "nat \<Rightarrow> ('a \<times> int) list \<Rightarrow> ('a \<times> int) list" where
  "most_common n items = take n (sorted_desc items)"

definition group_by_month :: "(string \<times> string) list \<Rightarrow> (string \<times> string list) list" where
  "group_by_month mapped_data = fold (\<lambda>(month, hashtag). dict_append month hashtag) mapped_data []"

definition reduce_hashtags :: "(string \<times> string) list \<Rightarrow> (string \<times> (string \<times> int) list) list" where
  "reduce_hashtags mapped_data =
     map (\<lambda>(month, hashtags). (month, most_common 10 (Counter hashtags)))
       (group_by_month mapped_data)"

text \<open>Position of the first occurrence of \<open>x\<close> in \<open>xs\<close> (\<open>length xs\<close> if there is none).\<close>

definition first_index :: "'a list \<Rightarrow> 'a \<Rightarrow> nat" where
  "first_index xs x = length (takeWhile (\<lambda>y. y \<noteq> x) xs)"

text \<open>The hashtags mapped to one month, in input order.\<close>

definition hashtags_of_month :: "(string \<times> string) list \<Rightarrow> string \<Rightarrow> string list" where
  "hashtags_of_month mapped_data month = map snd (filter (\<lambda>e. fst e = month) mapped_data)"

text \<open>The order of a ranking: higher count first, equal counts in first-seen order.\<close>

definition ranked_before :: "'a list \<Rightarrow> 'a \<times> int \<Rightarrow> 'a \<times> int \<Rightarrow> bool" where
  "ranked_before xs a b \<longleftrightarrow>
     snd a > snd b \<or> (snd a = snd b \<and> first_index xs (fst a) < first_index xs (fst b))"

section \<open>Streaming reducer (reducer.py)\<close>

datatype py_error = ValueError | ZeroDivisionError

definition TAB :: char where
  "TAB = CHR 0x09"



text \<open>
  \<open>int(s)\<close> on ASCII input: surrounding whitespace is dropped, one sign is allowed, then
  decimal digits, with single underscores allowed between digits.  \<open>None\<close> stands for
  \<open>ValueError\<close>.
\<close>

definition digit_val :: "char \<Rightarrow> int" where
  "digit_val c = int (length (takeWhile (\<lambda>d. d \<noteq> c) ''0123456789''))"




text \<open>\<open>str(n)\<close> for an integer.\<close>

definition digit_char :: "nat \<Rightarrow> char" where
  "digit_char n = ''0123456789'' ! n"

function show_nat :: "nat \<Rightarrow> string" where
  "show_nat n = (if n < 10 then [digit_char n] else show_nat (n div 10) @ [digit_char (n mod 10)])"
  by pat_completeness auto
termination
  by (relation "measure id") auto














text \<open>A mapper line: four fields joined by tabs.\<close>

definition tab_join :: "string list \<Rightarrow> string" where
  "tab_join fields = (case fields of [] \<Rightarrow> [] | f # fs \<Rightarrow> f @ concat (map (\<lambda>g. TAB # g) fs))"


section \<open>Geographic reducer: regional specialties (distribution-geo.py)\<close>

text \<open>
  Division raises \<open>ZeroDivisionError\<close> on a zero divisor.  \<open>round(x, n)\<close> rounds the
  number that the float \<open>x\<close> denotes to \<open>n\<close> decimals, half to even, and returns the
  float nearest to the result.
\<close>

definition py_div :: "rat \<Rightarrow> rat \<Rightarrow> py_error + rat" where
  "py_div a b = (if b = 0 then Inl ZeroDivisionError else Inr (fl (a / b)))"

definition py_round :: "nat \<Rightarrow> rat \<Rightarrow> rat" where
  "py_round ndigits x = fl (of_int (round_half_even (x * 10 ^ ndigits)) / 10 ^ ndigits)"

text \<open>\<open>counter[key]\<close>: a \<open>Counter\<close> answers \<open>0\<close> for a key it does not hold.\<close>

definition counter_get :: "('a \<times> int) list \<Rightarrow> 'a \<Rightarrow> int" where
  "counter_get counter key = (case map_of counter key of None \<Rightarrow> 0 | Some c \<Rightarrow> c)"

text \<open>\<open>d[key] = value\<close> on an insertion-ordered dictionary.\<close>

fun dict_set :: "'k \<Rightarrow> 'v \<Rightarrow> ('k \<times> 'v) list \<Rightarrow> ('k \<times> 'v) list" where
  "dict_set k v [] = [(k, v)]"
| "dict_set k v ((k', v') # rest) =
     (if k = k' then (k, v) # rest else (k', v') # dict_set k v rest)"

record specialty =
  theme :: string
  local_percentage :: rat
  global_percentage :: rat
  over_representation :: rat

text \<open>
  The body of \<open>for theme, count in country_theme_counts.items()\<close>: the entry appended to
  \<open>specialties\<close>, if any, or the exception raised.
\<close>

definition specialty_of ::
  "(string \<times> int) list \<Rightarrow> nat \<Rightarrow> nat \<Rightarrow> string \<times> int \<Rightarrow> py_error + specialty option" where
  "specialty_of global_theme_counts len_all_themes total_country_tweets item =
     (case item of (th, count) \<Rightarrow>
        (case py_div (of_int count) (of_nat total_country_tweets) of
           Inl e \<Rightarrow> Inl e
         | Inr local_pct \<Rightarrow>
             (case py_div (of_int (counter_get global_theme_counts th)) (of_nat len_all_themes) of
                Inl e \<Rightarrow> Inl e
              | Inr global_pct \<Rightarrow>
                  if local_pct > fl (global_pct * (3 / 2)) \<and> count \<ge> 2
                  then (case py_div local_pct global_pct of
                          Inl e \<Rightarrow> Inl e
                        | Inr ratio \<Rightarrow>
                            Inr (Some \<lparr>theme = th,
                                       local_percentage = py_round 1 (fl (local_pct * 100)),
                                       global_percentage = py_round 1 (fl (global_pct * 100)),
                                       over_representation = py_round 2 ratio\<rparr>))
                  else Inr None)))"

fun specialties_loop ::
  "(string \<times> int) list \<Rightarrow> nat \<Rightarrow> nat \<Rightarrow> (string \<times> int) list \<Rightarrow> specialty list
     \<Rightarrow> py_error + specialty list" where
  "specialties_loop g n tot [] specialties = Inr specialties"
| "specialties_loop g n tot (item # items) specialties =
     (case specialty_of g n tot item of
        Inl e \<Rightarrow> Inl e
      | Inr None \<Rightarrow> specialties_loop g n tot items specialties
      | Inr (Some s) \<Rightarrow> specialties_loop g n tot items (specialties @ [s]))"

text \<open>\<open>sorted(specialties, key=lambda x: x['over_representation'], reverse=True)\<close>.\<close>

definition sort_specialties :: "specialty list \<Rightarrow> specialty list" where
  "sort_specialties specialties = sort_key (\<lambda>s. - over_representation s) specialties"

text \<open>
  The loop \<open>for country, themes in themes_by_country.items()\<close> on the dictionary
  \<open>regional_specialties\<close>.
\<close>

fun regions_loop ::
  "(string \<times> int) list \<Rightarrow> nat \<Rightarrow> (string \<times> string list) list
     \<Rightarrow> (string \<times> specialty list) list \<Rightarrow> py_error + (string \<times> specialty list) list" where
  "regions_loop g n [] regional_specialties = Inr regional_specialties"
| "regions_loop g n ((country, themes) # rest) regional_specialties =
     (let country_theme_counts = Counter themes;
          total_country_tweets = length themes
      in if total_country_tweets = 0 then regions_loop g n rest regional_specialties
         else (case specialties_loop g n total_country_tweets country_theme_counts [] of
                 Inl e \<Rightarrow> Inl e
               | Inr specialties \<Rightarrow>
                   regions_loop g n rest
                     (dict_set country (sort_specialties specialties) regional_specialties)))"

record theme_analysis =
  global_themes :: "(string \<times> int) list"
  regional_specialties :: "(string \<times> specialty list) list"

text \<open>
  \<open>_analyze_themes_by_region\<close>; its second argument \<open>themes_by_city\<close> is not read.  The
  dictionary \<open>themes_by_country\<close> is an association list in insertion order.
\<close>

definition analyze_themes_by_region ::
  "(string \<times> string list) list \<Rightarrow> py_error + theme_analysis" where
  "analyze_themes_by_region themes_by_country =
     (let all_themes = concat (map snd themes_by_country);
          global_theme_counts = Counter all_themes
      in case regions_loop global_theme_counts (length all_themes) themes_by_country [] of
           Inl e \<Rightarrow> Inl e
         | Inr rs \<Rightarrow>
             Inr \<lparr>global_themes = most_common 10 global_theme_counts,
                  regional_specialties = rs\<rparr>)"

text \<open>
  The share of a theme in a list of themes, as a number and as the float computed for it;
  the test on the float shares; the entry recorded for a theme.
\<close>

definition exact_share :: "string list \<Rightarrow> string \<Rightarrow> rat" where
  "exact_share themes t = of_nat (count_list themes t) / of_nat (length themes)"

definition share :: "string list \<Rightarrow> string \<Rightarrow> rat" where
  "share themes t = fl (exact_share themes t)"

definition qualifies :: "string list \<Rightarrow> string list \<Rightarrow> string \<Rightarrow> bool" where
  "qualifies all_themes themes t \<longleftrightarrow>
     share themes t > fl (share all_themes t * (3 / 2)) \<and> count_list themes t \<ge> 2"

definition ideal_specialty :: "string list \<Rightarrow> string list \<Rightarrow> string \<Rightarrow> specialty" where
  "ideal_specialty all_themes themes t =
     \<lparr>theme = t,
      local_percentage = py_round 1 (fl (share themes t * 100)),
      global_percentage = py_round 1 (fl (share all_themes t * 100)),
      over_representation = py_round 2 (fl (share themes t / share all_themes t))\<rparr>"

text \<open>The specialties of one country: the qualifying themes in first-seen order, sorted.\<close>

definition region_specialties :: "string list \<Rightarrow> string list \<Rightarrow> specialty list" where
  "region_specialties all_themes themes =
     sort_specialties
       (map (ideal_specialty all_themes themes)
          (filter (qualifies all_themes themes) (map fst (Counter themes))))"

definition region_step ::
  "string list \<Rightarrow> string \<times> string list \<Rightarrow> (string \<times> specialty list) list
     \<Rightarrow> (string \<times> specialty list) list" where
  "region_step all_themes entry acc =
     (if snd entry = [] then acc
      else dict_set (fst entry) (region_specialties all_themes (snd entry)) acc)"

section \<open>Dates: \<open>datetime.strptime\<close> and \<open>datetime.fromisoformat\<close>\<close>

text \<open>
  \<open>strptime\<close> turns its format into a regular expression, matches it at the start of the
  string and raises \<open>ValueError\<close> when there is no match or when the match leaves text
  unread.  The matcher below lists the matches of a pattern in the order in which the
  backtracking matcher tries them, each with the text it leaves; the first one is the match
  that \<open>re.match\<close> returns.  Month and weekday names are those of the C locale.
\<close>

definition upper_char :: "char \<Rightarrow> char" where
  "upper_char c =
     (case map_of (zip ''abcdefghijklmnopqrstuvwxyz'' ''ABCDEFGHIJKLMNOPQRSTUVWXYZ'') c of
        Some u \<Rightarrow> u
      | None \<Rightarrow> c)"

text \<open>One alternative of a directive: a sequence of character classes, each a string.\<close>

fun match_classes :: "string list \<Rightarrow> string \<Rightarrow> (string \<times> string) option" where
  "match_classes [] s = Some ([], s)"
| "match_classes (cl # cls) [] = None"
| "match_classes (cl # cls) (c # cs) =
     (if c \<in> set cl
      then (case match_classes cls cs of
              None \<Rightarrow> None
            | Some (m, rest) \<Rightarrow> Some (c # m, rest))
      else None)"

definition alternatives :: "string list list \<Rightarrow> string \<Rightarrow> (string \<times> string) list" where
  "alternatives alts s = List.map_filter (\<lambda>alt. match_classes alt s) alts"

definition nat_of_digits :: "string \<Rightarrow> nat" where
  "nat_of_digits s = fold (\<lambda>c n. 10 * n + nat (digit_val c)) (filter is_digit s) 0"

definition number :: "string list list \<Rightarrow> string \<Rightarrow> (nat \<times> string) list" where
  "number alts s = map (\<lambda>(m, rest). (nat_of_digits m, rest)) (alternatives alts s)"

definition d09 :: string where "d09 = ''0123456789''"
definition d19 :: string where "d19 = ''123456789''"

definition dir_Y :: "string \<Rightarrow> (nat \<times> string) list" where
  "dir_Y = number [[d09, d09, d09, d09]]"

definition dir_m :: "string \<Rightarrow> (nat \<times> string) list" where
  "dir_m = number [[''1'', ''012''], [''0'', d19], [d19]]"

definition dir_d :: "string \<Rightarrow> (nat \<times> string) list" where
  "dir_d = number [[''3'', ''01''], [''12'', d09], [''0'', d19], [d19], ['' '', d19]]"

definition dir_H :: "string \<Rightarrow> (nat \<times> string) list" where
  "dir_H = number [[''2'', ''0123''], [''01'', d09], [d09]]"

definition dir_M :: "string \<Rightarrow> (nat \<times> string) list" where
  "dir_M = number [[''012345'', d09], [d09]]"

definition dir_S :: "string \<Rightarrow> (nat \<times> string) list" where
  "dir_S = number [[''6'', ''01''], [''012345'', d09], [d09]]"

text \<open>A name, in any mixture of cases; the value is the position in the list, from 1.\<close>

definition any_case :: "string \<Rightarrow> string list" where
  "any_case w = map (\<lambda>c. [c, upper_char c]) w"

definition names :: "string list \<Rightarrow> string \<Rightarrow> (nat \<times> string) list" where
  "names ws s =
     List.map_filter
       (\<lambda>(i, w). map_option (\<lambda>(m, rest). (i, rest)) (match_classes (any_case w) s))
       (zip [1..<Suc (length ws)] ws)"

definition dir_a :: "string \<Rightarrow> (nat \<times> string) list" where
  "dir_a = names [''mon'', ''tue'', ''wed'', ''thu'', ''fri'', ''sat'', ''sun'']"

definition dir_b :: "string \<Rightarrow> (nat \<times> string) list" where
  "dir_b = names [''jan'', ''feb'', ''mar'', ''apr'', ''may'', ''jun'',
                  ''jul'', ''aug'', ''sep'', ''oct'', ''nov'', ''dec'']"

text \<open>
  \<open>%z\<close>: \<open>[+-]\d\d:?[0-5]\d(:?[0-5]\d(\.\d{1,6})?)?\<close> or the letter \<open>Z\<close>, the
  alternatives in the order in which the matcher tries them.  After the match
  \<open>strptime\<close> raises \<open>ValueError\<close> when only one of the two colons is there, and the
  constructor of the time zone raises it for an offset of 24 hours or more; the offset does
  not change the fields of the date.  The value is whether the colons agree, and the hours.
\<close>

definition z_alternatives :: "(bool \<times> string list) list" where
  "z_alternatives =
     (let fracs = [[''.'', d09, d09, d09, d09, d09, d09], [''.'', d09, d09, d09, d09, d09],
                   [''.'', d09, d09, d09, d09], [''.'', d09, d09, d09], [''.'', d09, d09],
                   [''.'', d09], []];
          tails = concat (map (\<lambda>colon. map (\<lambda>frac. (Some colon,
                                  (if colon then ['':''] else []) @ [''012345'', d09] @ frac))
                                 fracs)
                            [True, False]) @ [(None, [])];
          heads = [(True, [''+-'', d09, d09, '':'', ''012345'', d09]),
                   (False, [''+-'', d09, d09, ''012345'', d09])]
      in concat (map (\<lambda>(hc, h). map (\<lambda>(tc, t). (tc = None \<or> tc = Some hc, h @ t)) tails) heads)
         @ [(True, [''Z''])])"

definition dir_z :: "string \<Rightarrow> ((bool \<times> nat) \<times> string) list" where
  "dir_z s =
     List.map_filter
       (\<lambda>(agree, alt).
          map_option (\<lambda>(m, rest). ((agree, nat_of_digits (take 2 (drop 1 m))), rest))
            (match_classes alt s))
       z_alternatives"

text \<open>A literal character of the format, and a blank of the format (\<open>\s+\<close>, greedy).\<close>

definition lit :: "char \<Rightarrow> string \<Rightarrow> string list" where
  "lit c s = (case s of [] \<Rightarrow> [] | x # xs \<Rightarrow> if x = c then [xs] else [])"

definition blanks :: "string \<Rightarrow> string list" where
  "blanks s = map (\<lambda>k. drop k s) (rev [1..<Suc (length (takeWhile is_space s))])"

text \<open>The first match, which has to reach the end of the string.\<close>

definition full_match :: "('a \<times> string) list \<Rightarrow> 'a option" where
  "full_match ms = (case ms of [] \<Rightarrow> None | (v, rest) # _ \<Rightarrow> if rest = [] then Some v else None)"

text \<open>
  The constructor of \<open>datetime\<close> checks the ranges: years from 1 to 9999, the day within
  the month, seconds up to 59.
\<close>

record datetime =
  dt_year :: nat
  dt_month :: nat
  dt_day :: nat
  dt_hour :: nat
  dt_minute :: nat
  dt_second :: nat

definition is_leap :: "nat \<Rightarrow> bool" where
  "is_leap y \<longleftrightarrow> y mod 4 = 0 \<and> (y mod 100 \<noteq> 0 \<or> y mod 400 = 0)"

definition days_in_month :: "nat \<Rightarrow> nat \<Rightarrow> nat" where
  "days_in_month y m =
     (if m = 2 then (if is_leap y then 29 else 28)
      else if m \<in> {4, 6, 9, 11} then 30 else 31)"

definition new_datetime :: "nat \<Rightarrow> nat \<Rightarrow> nat \<Rightarrow> nat \<Rightarrow> nat \<Rightarrow> nat \<Rightarrow> datetime option" where
  "new_datetime y m d H M S =
     (if 1 \<le> y \<and> y \<le> 9999 \<and> 1 \<le> m \<and> m \<le> 12 \<and> 1 \<le> d \<and> d \<le> days_in_month y m
         \<and> H \<le> 23 \<and> M \<le> 59 \<and> S \<le> 59
      then Some \<lparr>dt_year = y, dt_month = m, dt_day = d, dt_hour = H, dt_minute = M, dt_second = S\<rparr>
      else None)"

text \<open>\<open>datetime.strptime(s, '%Y-%m-%d %H:%M:%S')\<close>; \<open>None\<close> stands for \<open>ValueError\<close>.\<close>

definition strptime_ymd_hms :: "string \<Rightarrow> datetime option" where
  "strptime_ymd_hms s =
     (case full_match
        (do {
           (y, s1) \<leftarrow> dir_Y s;
           s2 \<leftarrow> lit CHR ''-'' s1;
           (m, s3) \<leftarrow> dir_m s2;
           s4 \<leftarrow> lit CHR ''-'' s3;
           (d, s5) \<leftarrow> dir_d s4;
           s6 \<leftarrow> blanks s5;
           (H, s7) \<leftarrow> dir_H s6;
           s8 \<leftarrow> lit CHR '':'' s7;
           (M, s9) \<leftarrow> dir_M s8;
           s10 \<leftarrow> lit CHR '':'' s9;
           (S, s11) \<leftarrow> dir_S s10;
           [((y, m, d, H, M, S), s11)]
         }) of
        None \<Rightarrow> None
      | Some (y, m, d, H, M, S) \<Rightarrow> new_datetime y m d H M S)"

text \<open>\<open>datetime.strptime(s, '%a %b %d %H:%M:%S %z %Y')\<close>; the weekday is not checked.\<close>

definition strptime_twitter :: "string \<Rightarrow> datetime option" where
  "strptime_twitter s =
     (case full_match
        (do {
           (a, s1) \<leftarrow> dir_a s;
           s2 \<leftarrow> blanks s1;
           (m, s3) \<leftarrow> dir_b s2;
           s4 \<leftarrow> blanks s3;
           (d, s5) \<leftarrow> dir_d s4;
           s6 \<leftarrow> blanks s5;
           (H, s7) \<leftarrow> dir_H s6;
           s8 \<leftarrow> lit CHR '':'' s7;
           (M, s9) \<leftarrow> dir_M s8;
           s10 \<leftarrow> lit CHR '':'' s9;
           (S, s11) \<leftarrow> dir_S s10;
           s12 \<leftarrow> blanks s11;
           ((agree, zh), s13) \<leftarrow> dir_z s12;
           s14 \<leftarrow> blanks s13;
           (y, s15) \<leftarrow> dir_Y s14;
           [((y, m, d, H, M, S, agree, zh), s15)]
         }) of
        None \<Rightarrow> None
      | Some (y, m, d, H, M, S, agree, zh) \<Rightarrow>
          if agree \<and> zh \<le> 23 then new_datetime y m d H M S else None)"

text \<open>
  \<open>datetime.fromisoformat(s)\<close> with the grammar documented for Python 3.7 to 3.10, the
  versions for which the mapper replaces \<open>Z\<close> by \<open>+00:00\<close>:
  \<open>YYYY-MM-DD[*HH[:MM[:SS[.fff[fff]]]][+HH:MM[:SS[.ffffff]]]]\<close>, where \<open>*\<close> is any one
  character.  The date is read from the first ten characters and the time from the twelfth
  on; an offset starts at the sign, \<open>+\<close> or \<open>-\<close>, and has to stay below 24 hours.
\<close>

definition iso_date :: "string \<Rightarrow> (nat \<times> nat \<times> nat) option" where
  "iso_date s =
     (case match_classes [d09, d09, d09, d09, ''-'', d09, d09, ''-'', d09, d09] s of
        Some (m, []) \<Rightarrow>
          Some (nat_of_digits (take 4 m), nat_of_digits (take 2 (drop 5 m)), nat_of_digits (drop 8 m))
      | _ \<Rightarrow> None)"

definition hh_mm_ss :: "string \<Rightarrow> (nat \<times> nat \<times> nat) option" where
  "hh_mm_ss s =
     (let hh = [d09, d09];
          mm = hh @ ['':'', d09, d09];
          ss = mm @ ['':'', d09, d09];
          forms = [hh, mm, ss, ss @ [''.'', d09, d09, d09],
                   ss @ [''.'', d09, d09, d09, d09, d09, d09]]
      in if \<exists>form\<in>set forms. match_classes form s = Some (s, [])
         then Some (nat_of_digits (take 2 s), nat_of_digits (take 2 (drop 3 s)),
                    nat_of_digits (take 2 (drop 6 s)))
         else None)"

definition split_tz :: "string \<Rightarrow> string \<times> string option" where
  "split_tz tstr =
     (let sign = (if CHR ''-'' \<in> set tstr then CHR ''-'' else CHR ''+'')
      in if sign \<in> set tstr
         then (takeWhile (\<lambda>c. c \<noteq> sign) tstr, Some (tl (dropWhile (\<lambda>c. c \<noteq> sign) tstr)))
         else (tstr, None))"

definition fromisoformat :: "string \<Rightarrow> datetime option" where
  "fromisoformat s =
     (case iso_date (take 10 s) of
        None \<Rightarrow> None
      | Some (y, m, d) \<Rightarrow>
          (let tstr = drop 11 s
           in if length s = 10 then new_datetime y m d 0 0 0
              else
                (case split_tz tstr of (time_str, tz) \<Rightarrow>
                   (case hh_mm_ss time_str of
                      None \<Rightarrow> None
                    | Some (H, M, S) \<Rightarrow>
                        (case tz of
                           None \<Rightarrow> new_datetime y m d H M S
                         | Some tzstr \<Rightarrow>
                             if length tzstr \<in> {5, 8, 15}
                             then (case hh_mm_ss tzstr of
                                     None \<Rightarrow> None
                                   | Some (th, tm, ts) \<Rightarrow>
                                       if int th * 3600 + int tm * 60 + int ts < 86400
                                       then new_datetime y m d H M S
                                       else None)
                             else None)))))"

text \<open>\<open>f"{n:02d}"\<close>, and \<open>s.replace(old, new)\<close> for a one-character \<open>old\<close>.\<close>

definition pad2 :: "nat \<Rightarrow> string" where
  "pad2 n = (if n < 10 then CHR ''0'' # show_nat n else show_nat n)"

definition replace_char :: "char \<Rightarrow> string \<Rightarrow> string \<Rightarrow> string" where
  "replace_char old new s = concat (map (\<lambda>c. if c = old then new else [c]) s)"

text \<open>\<open>f"{dt.year}-{dt.month:02d}"\<close> and \<open>dt.strftime('%Y-%m')\<close> (years from 1000 on).\<close>

definition year_month :: "datetime \<Rightarrow> string" where
  "year_month dt = show_nat (dt_year dt) @ ''-'' @ pad2 (dt_month dt)"

text \<open>\<open>sub in s\<close> for strings.\<close>

fun starts_with :: "string \<Rightarrow> string \<Rightarrow> bool" where
  "starts_with s [] = True"
| "starts_with [] (p # ps) = False"
| "starts_with (c # cs) (p # ps) = (c = p \<and> starts_with cs ps)"

fun contains :: "string \<Rightarrow> string \<Rightarrow> bool" where
  "contains [] sub = (sub = [])"
| "contains (c # cs) sub = (starts_with (c # cs) sub \<or> contains cs sub)"

text \<open>\<open>sep.join(parts)\<close> and \<open>s.title()\<close>.\<close>

definition join :: "string \<Rightarrow> string list \<Rightarrow> string" where
  "join sep parts = (case parts of [] \<Rightarrow> [] | p # ps \<Rightarrow> p @ concat (map (\<lambda>q. sep @ q) ps))"

fun title_from :: "bool \<Rightarrow> string \<Rightarrow> string" where
  "title_from previous_is_cased [] = []"
| "title_from previous_is_cased (c # cs) =
     (if is_lower c then (if previous_is_cased then c else upper_char c) # title_from True cs
      else if is_upper c then (if previous_is_cased then lower_char c else c) # title_from True cs
      else c # title_from False cs)"

definition title :: "string \<Rightarrow> string" where
  "title s = title_from False s"

section \<open>Tweets\<close>

text \<open>
  A tweet is a JSON object; \<open>None\<close> stands for a key that is absent, so that
  \<open>tweet.get(key, default)\<close> is \<open>default\<close>.  Numbers are kept as the text that Python
  prints for them.  The type of a hashtag is a parameter: the local scripts read strings,
  the streaming mapper also reads objects with a member \<open>text\<close>.
\<close>

record location =
  city :: "string option"
  coordinates :: "string list option"

record 'h tweet =
  tweet_text :: "string option"
  text_field :: "string option"
  full_text :: "string option"
  timestamp :: "string option"
  created_at :: "string option"
  hashtags :: "'h list option"
  location :: "location option"

text \<open>\<open>d.get(key, '')\<close> and \<open>d.get(key, [])\<close>.\<close>

definition get_str :: "string option \<Rightarrow> string" where
  "get_str v = (case v of None \<Rightarrow> [] | Some s \<Rightarrow> s)"

definition get_list :: "'a list option \<Rightarrow> 'a list" where
  "get_list v = (case v of None \<Rightarrow> [] | Some xs \<Rightarrow> xs)"

section \<open>Geographic mapper (distribution-geo.py)\<close>

definition city_to_country :: "(string \<times> string) list" where
  "city_to_country =
     [(''paris'', ''France''), (''london'', ''United Kingdom''), (''new york'', ''United States''),
      (''tokyo'', ''Japan''), (''berlin'', ''Germany''), (''madrid'', ''Spain''),
      (''rome'', ''Italy''), (''amsterdam'', ''Netherlands''), (''brussels'', ''Belgium''),
      (''vienna'', ''Austria''), (''zurich'', ''Switzerland''), (''stockholm'', ''Sweden''),
      (''oslo'', ''Norway''), (''helsinki'', ''Finland''), (''copenhagen'', ''Denmark''),
      (''dublin'', ''Ireland''), (''lisbon'', ''Portugal''), (''athens'', ''Greece''),
      (''warsaw'', ''Poland''), (''prague'', ''Czech Republic''), (''budapest'', ''Hungary''),
      (''bucharest'', ''Romania''), (''sofia'', ''Bulgaria''), (''zagreb'', ''Croatia''),
      (''ljubljana'', ''Slovenia''), (''bratislava'', ''Slovakia''), (''vilnius'', ''Lithuania''),
      (''riga'', ''Latvia''), (''tallinn'', ''Estonia'')]"

definition tech_themes :: "(string \<times> string list) list" where
  "tech_themes =
     [(''ai'', [''ai'', ''artificial intelligence'', ''machinelearning'', ''ml'']),
      (''bigdata'', [''bigdata'', ''hadoop'', ''spark'', ''analytics'']),
      (''cloud'', [''cloud'', ''cloudcomputing'', ''aws'', ''azure'']),
      (''blockchain'', [''blockchain'', ''crypto'', ''bitcoin'']),
      (''iot'', [''iot'', ''internet of things'', ''sensors'']),
      (''datascience'', [''datascience'', ''data science'', ''analytics'']),
      (''programming'', [''python'', ''java'', ''javascript'', ''coding'']),
      (''mapreduce'', [''mapreduce'', ''distributed computing''])]"

record location_info =
  li_city :: string
  li_country :: string
  li_coordinates :: "string list"

text \<open>
  \<open>extract_location_info\<close>.  An absent \<open>location\<close> reads as the empty dictionary, and the
  empty dictionary (no member at all) is false in \<open>if not location\<close>.
\<close>

definition extract_location_info :: "'h tweet \<Rightarrow> location_info option" where
  "extract_location_info tweet =
     (case location tweet of
        None \<Rightarrow> None
      | Some loc \<Rightarrow>
          if city loc = None \<and> coordinates loc = None then None
          else
            let c = strip (lower (get_str (city loc)));
                coords = get_list (coordinates loc)
            in if c = [] then None
               else Some \<lparr>li_city = title c,
                          li_country = (case map_of city_to_country c of
                                          None \<Rightarrow> ''Unknown''
                                        | Some country \<Rightarrow> country),
                          li_coordinates = coords\<rparr>)"

definition extract_themes :: "string tweet \<Rightarrow> string list" where
  "extract_themes tweet =
     (let txt = lower (get_str (tweet_text tweet));
          tags = map (\<lambda>h. replace_char CHR ''#'' [] (lower h)) (get_list (hashtags tweet));
          content = txt @ '' '' @ join '' '' tags;
          themes = map fst (filter (\<lambda>(th, keywords). list_ex (contains content) keywords) tech_themes)
      in if themes = [] then [''general''] else themes)"

record payload =
  p_location :: location_info
  p_themes :: "string list"
  p_month :: string
  p_tweet_text :: string

definition map_geographic_data :: "string tweet \<Rightarrow> payload option" where
  "map_geographic_data tweet =
     (case extract_location_info tweet of
        None \<Rightarrow> None
      | Some info \<Rightarrow>
          let themes = extract_themes tweet;
              date_key = (case strptime_ymd_hms (get_str (timestamp tweet)) of
                            Some dt \<Rightarrow> year_month dt
                          | None \<Rightarrow> ''unknown'');
              txt = get_str (tweet_text tweet)
          in Some \<lparr>p_location = info, p_themes = themes, p_month = date_key,
                    p_tweet_text = (if length txt > 100 then take 100 txt @ ''...'' else txt)\<rparr>)"

text \<open>\<open>HashtagMapper.map_hashtags\<close> of hastag-tendance.py, on the same tweets.\<close>

definition map_hashtags :: "string tweet \<Rightarrow> (string \<times> string) list" where
  "map_hashtags tweet =
     (let ts = get_str (timestamp tweet);
          tags = get_list (hashtags tweet)
      in if ts = [] \<or> tags = [] then []
         else (case strptime_ymd_hms ts of
                 None \<Rightarrow> []
               | Some dt \<Rightarrow> hashtag_results (year_month dt) tags))"

section \<open>Streaming mapper (mapper.py)\<close>

text \<open>A hashtag of the input: a string, or an object with the member \<open>text\<close>.\<close>

datatype tag = TagStr string | TagObj string

fun tag_text :: "tag \<Rightarrow> string" where
  "tag_text (TagObj t) = lower t"
| "tag_text (TagStr s) = lower s"

text \<open>\<open>re.findall(r'#\w+', s)\<close>.\<close>

function findall_hashtags :: "string \<Rightarrow> string list" where
  "findall_hashtags [] = []"
| "findall_hashtags (c # cs) =
     (if c = CHR ''#'' \<and> takeWhile is_word cs \<noteq> []
      then (c # takeWhile is_word cs) # findall_hashtags (dropWhile is_word cs)
      else findall_hashtags cs)"
  by pat_completeness auto
termination
  by (relation "measure length") (auto simp: length_dropWhile_le less_Suc_eq_le)

definition mapper_positive_words :: "string list" where
  "mapper_positive_words = [''good'', ''great'', ''excellent'', ''amazing'', ''wonderful'',
     ''fantastic'', ''awesome'', ''perfect'', ''love'', ''best'', ''happy'', ''nice'']"

definition mapper_negative_words :: "string list" where
  "mapper_negative_words = [''bad'', ''terrible'', ''awful'', ''horrible'', ''worst'', ''hate'',
     ''sad'', ''angry'', ''disappointed'', ''poor'', ''fail'', ''sucks'']"

text \<open>
  \<open>tweet.get('tweet_text', '') or tweet.get('text', '') or tweet.get('full_text', '') or ''\<close>;
  the field \<open>text_field\<close> is the member \<open>text\<close>.
\<close>

definition tweet_content :: "'h tweet \<Rightarrow> string" where
  "tweet_content tweet =
     (if get_str (tweet_text tweet) \<noteq> [] then get_str (tweet_text tweet)
      else if get_str (text_field tweet) \<noteq> [] then get_str (text_field tweet)
      else get_str (full_text tweet))"

text \<open>The month key of the mapper, with its default \<open>2024-01\<close>.\<close>

definition mapper_month_key :: "'h tweet \<Rightarrow> string" where
  "mapper_month_key tweet =
     (let created =
            (if get_str (timestamp tweet) \<noteq> [] then get_str (timestamp tweet)
             else get_str (created_at tweet))
      in if created \<noteq> []
         then (case (if CHR ''T'' \<in> set created
                     then fromisoformat (replace_char CHR ''Z'' ''+00:00'' created)
                     else strptime_twitter created) of
                 Some dt \<Rightarrow> year_month dt
               | None \<Rightarrow> ''2024-01'')
         else ''2024-01'')"

definition mapper_line :: "string \<Rightarrow> string \<Rightarrow> string \<Rightarrow> string" where
  "mapper_line record_type month_key item = tab_join [record_type, month_key, item, ''1'']"

text \<open>The body of \<open>for tweet in tweet_list\<close>: the lines printed for one tweet.\<close>

definition map_tweet :: "string \<Rightarrow> tag tweet \<Rightarrow> string list" where
  "map_tweet analysis_type tweet =
     (let txt = tweet_content tweet
      in if txt = [] then []
         else
           let month_key = mapper_month_key tweet
           in if analysis_type = ''hashtags'' then
                (let hashtag_list = get_list (hashtags tweet)
                 in if hashtag_list \<noteq> []
                    then map (\<lambda>t. mapper_line ''HASHTAG'' month_key (CHR ''#'' # tag_text t))
                           hashtag_list
                    else map (\<lambda>t. mapper_line ''HASHTAG'' month_key t)
                           (findall_hashtags (lower txt)))
              else if analysis_type = ''sentiment'' then
                (let text_lower = lower txt;
                     positive_count = length (filter (contains text_lower) mapper_positive_words);
                     negative_count = length (filter (contains text_lower) mapper_negative_words);
                     sentiment = (if positive_count > negative_count then ''positive''
                                  else if negative_count > positive_count then ''negative''
                                  else ''neutral'')
                 in [mapper_line ''SENTIMENT'' month_key sentiment])
              else if analysis_type = ''geography'' then
                (let c = (case location tweet of None \<Rightarrow> [] | Some loc \<Rightarrow> get_str (city loc));
                     coords = (case location tweet of
                                 None \<Rightarrow> []
                               | Some loc \<Rightarrow> get_list (coordinates loc))
                 in (if c \<noteq> [] then [mapper_line ''LOCATION'' month_key (take 50 (strip c))]
                     else [])
                    @ (if coords \<noteq> [] \<and> length coords \<ge> 2
                       then [mapper_line ''COORDINATES'' month_key (coords ! 0 @ '','' @ coords ! 1)]
                       else []))
              else [])"

text \<open>
  \<open>mapper_combined\<close> on the tweets read from standard input, with the value of
  \<open>ANALYSIS_TYPE\<close>.
\<close>

definition mapper_combined :: "string option \<Rightarrow> tag tweet list \<Rightarrow> string list" where
  "mapper_combined env tweet_list =
     (let analysis_type = lower (case env of None \<Rightarrow> ''hashtags'' | Some v \<Rightarrow> v)
      in concat (map (map_tweet analysis_type) tweet_list))"

text \<open>
  Example tweets: a tweet from Paris without any text, and tweets that differ only in the
  form of their timestamp.
\<close>

definition paris_without_text :: "'h tweet" where
  "paris_without_text =
     \<lparr>tweet_text = Some [], text_field = None, full_text = None,
      timestamp = Some ''2024-03-05 10:00:00'', created_at = None, hashtags = None,
      location = Some \<lparr>city = Some ''Paris'', coordinates = Some [''48.8566'', ''2.3522'']\<rparr>\<rparr>"

definition tweet_at :: "string \<Rightarrow> 'h list \<Rightarrow> 'h tweet" where
  "tweet_at ts tags =
     \<lparr>tweet_text = Some ''hadoop is great'', text_field = None, full_text = None,
      timestamp = Some ts, created_at = None, hashtags = Some tags, location = None\<rparr>"


text \<open>
  The themes recorded as specialties of a country, with their recorded ratios, in the order
  of the result; and the ratio of the exact shares.
\<close>

definition ranking :: "py_error + theme_analysis \<Rightarrow> string \<Rightarrow> (string \<times> rat) list" where
  "ranking result country =
     (case result of
        Inl e \<Rightarrow> []
      | Inr r \<Rightarrow>
          (case map_of (regional_specialties r) country of
             None \<Rightarrow> []
           | Some sp \<Rightarrow> map (\<lambda>s. (theme s, over_representation s)) sp))"

definition exact_ratio :: "string list \<Rightarrow> string list \<Rightarrow> string \<Rightarrow> rat" where
  "exact_ratio all_themes themes t = exact_share themes t / exact_share all_themes t"

text \<open>The characters that the numeric directives of \<open>strptime\<close> read.\<close>

definition numeric :: "char set" where
  "numeric = set ''0123456789 ''"

section \<open>Properties of the rounding\<close>

lemma bits_bounds: "0 < n \<Longrightarrow> 0 < bits n \<and> 2 ^ (bits n - 1) \<le> n \<and> n < 2 ^ bits n"
proof (induction n rule: bits.induct)
  case (1 n)
  show ?case
  proof (cases "n div 2 \<le> 0")
    case True
    with 1 have "n = 1" by presburger
    then show ?thesis by (simp add: bits.simps)
  next
    case False
    then have pos: "0 < n div 2" by simp
    from 1 pos have IH: "0 < bits (n div 2)" "2 ^ (bits (n div 2) - 1) \<le> n div 2"
      "n div 2 < 2 ^ bits (n div 2)"
      by simp_all
    have b: "bits n = Suc (bits (n div 2))" using 1(2) by (subst bits.simps) simp
    obtain j where j: "bits (n div 2) = Suc j" using IH(1) by (cases "bits (n div 2)") auto
    have "2 * 2 ^ j \<le> n" using IH(2) j by simp
    moreover have "n < 2 * 2 ^ Suc j" using IH(3) j by simp
    ultimately show ?thesis unfolding b j by simp
  qed
qed

lemma pow2_powi: "pow2 e = 2 powi e"
  by (simp add: pow2_def power_int_def field_simps)

lemma pow2_pos: "0 < pow2 e"
  by (simp add: pow2_def)

lemma round_half_even_ge: "\<lfloor>y\<rfloor> \<le> round_half_even y"
  by (simp add: round_half_even_def Let_def)

lemma fl_scaled:
  assumes "0 < a"
  defines "k \<equiv> int (bits (fst (quotient_of a))) - int (bits (snd (quotient_of a)))"
  shows "pow2 (k - 1) \<le> a"
proof -
  obtain p q where pq: "quotient_of a = (p, q)" by (cases "quotient_of a")
  have q: "0 < q" using pq by (rule quotient_of_denom_pos)
  have a: "a = of_int p / of_int q" using pq by (rule quotient_of_div)
  have p: "0 < p" using assms(1) q unfolding a by (simp add: zero_less_divide_iff)
  from bits_bounds [OF p] have bp: "0 < bits p" "2 ^ (bits p - 1) \<le> p" by simp_all
  from bits_bounds [OF q] have bq: "q < 2 ^ bits q" by simp
  have "k - 1 = int (bits p - 1) - int (bits q)"
    using bp(1) by (simp add: k_def pq)
  then have "pow2 (k - 1) = 2 powi (int (bits p - 1) - int (bits q))"
    by (simp only: pow2_powi)
  also have "\<dots> = 2 ^ (bits p - 1) / 2 ^ bits q"
    by (simp add: power_int_diff)
  also have "\<dots> \<le> of_int p / of_int q"
  proof -
    have "(2::rat) ^ (bits p - 1) \<le> of_int p"
      using bp(2) by (metis of_int_le_iff of_int_numeral of_int_power)
    moreover have "(of_int q :: rat) \<le> 2 ^ bits q"
      using bq by (metis less_imp_le of_int_le_iff of_int_numeral of_int_power)
    moreover have "(0::rat) < of_int q" using q by simp
    ultimately show ?thesis using p by (intro frac_le) simp_all
  qed
  finally show ?thesis unfolding a .
qed

lemma fl_nonzero:
  assumes "x \<noteq> 0"
  shows "fl x \<noteq> 0"
proof -
  define a where "a = \<bar>x\<bar>"
  define k where "k = int (bits (fst (quotient_of a))) - int (bits (snd (quotient_of a)))"
  define L where "L = (if pow2 k \<le> a then k else k - 1)"
  define m where "m = round_half_even (a / pow2 (L - 52))"
  have a: "0 < a" using assms by (simp add: a_def)
  have "pow2 L \<le> a"
    using fl_scaled [OF a] unfolding L_def k_def by simp
  moreover have "pow2 (L - 52) = pow2 L / 2 ^ 52"
    by (simp add: pow2_powi power_int_diff)
  ultimately have "2 ^ 52 \<le> a / pow2 (L - 52)"
    using pow2_pos [of L] by (simp add: field_simps)
  then have "1 \<le> a / pow2 (L - 52)" by simp
  then have "1 \<le> \<lfloor>a / pow2 (L - 52)\<rfloor>" by simp
  then have "0 < m" using round_half_even_ge [of "a / pow2 (L - 52)"] unfolding m_def by linarith
  moreover have "fl x = sgn x * of_int m * pow2 (L - 52)"
    using assms unfolding fl_def Let_def m_def L_def k_def a_def by simp
  ultimately show ?thesis
    using assms pow2_pos [of "L - 52"] by (simp add: sgn_eq_0_iff)
qed

section \<open>Properties of the sentiment analyzer\<close>

lemma score_step_add:
  "score_step words i acc =
     (fst acc + fst (contribution words i), snd acc + snd (contribution words i))"
  by (simp add: score_step_def contribution_def Let_def)

lemma fold_score_step:
  "fold (score_step words) js acc =
     (fst acc + (\<Sum>i\<leftarrow>js. fst (contribution words i)),
      snd acc + (\<Sum>i\<leftarrow>js. snd (contribution words i)))"
proof (induction js arbitrary: acc)
  case Nil
  show ?case by simp
next
  case (Cons j js)
  have "fold (score_step words) (j # js) acc = fold (score_step words) js (score_step words j acc)"
    by simp
  also have "\<dots> = fold (score_step words) js
      (fst acc + fst (contribution words j), snd acc + snd (contribution words j))"
    using score_step_add [of words j acc] by simp
  finally show ?case
    by (simp add: Cons.IH add.assoc)
qed

lemma score_loop_sum:
  "score_loop words =
     ((\<Sum>i\<leftarrow>[0..<length words]. fst (contribution words i)),
      (\<Sum>i\<leftarrow>[0..<length words]. snd (contribution words i)))"
  by (simp add: score_loop_def fold_score_step)

lemma disjoint_words: "positive_words \<inter> negative_words = {}"
  by (simp add: positive_words_def negative_words_def)

text \<open>
  C1. For every text the score of \<open>analyze_sentiment\<close> lies between \<open>-1\<close> and \<open>1\<close>; the
  empty text, and every text without a word token, scores exactly \<open>0\<close>.
\<close>

theorem analyze_sentiment_range:
  "- 1 \<le> analyze_sentiment text \<and> analyze_sentiment text \<le> 1
   \<and> analyze_sentiment [] = 0
   \<and> (findall_words (lower text) = [] \<longrightarrow> analyze_sentiment text = 0)"
  by (simp add: analyze_sentiment_def Let_def split: prod.split)

theorem analyze_sentiment_range_witness:
  "findall_words (lower ''?! ...'') = [] \<and> analyze_sentiment ''?! ...'' = 0
   \<and> - 1 \<le> analyze_sentiment ''?! ...'' \<and> analyze_sentiment ''?! ...'' \<le> 1"
  using analyze_sentiment_range [of "''?! ...''"]
  by (simp add: lower_def lower_char_def is_upper_def is_lower_def is_digit_def is_word_def)

lemma label_examples:
  "get_sentiment_label (fl (1 / 10)) = Neutral
   \<and> get_sentiment_label (fl (1000001 / 10000000)) = Positive
   \<and> get_sentiment_label (1 / 10) = Neutral
   \<and> get_sentiment_label (1000001 / 10000000) = Positive"
  by code_simp

text \<open>
  C4. The label is \<open>Positive\<close> exactly for scores above the float \<open>0.1\<close>, \<open>Negative\<close>
  exactly for scores below the float \<open>-0.1\<close> and \<open>Neutral\<close> otherwise; the score
  \<open>0.1\<close> itself is neutral and \<open>0.1000001\<close> is positive, as floats and as numbers.
\<close>

theorem get_sentiment_label_thresholds:
  "(get_sentiment_label s = Positive \<longleftrightarrow> s > fl (1 / 10))
   \<and> (get_sentiment_label s = Negative \<longleftrightarrow> s < - fl (1 / 10))
   \<and> (get_sentiment_label s = Neutral \<longleftrightarrow> \<not> s > fl (1 / 10) \<and> \<not> s < - fl (1 / 10))
   \<and> get_sentiment_label (fl (1 / 10)) = Neutral
   \<and> get_sentiment_label (fl (1000001 / 10000000)) = Positive
   \<and> get_sentiment_label (1 / 10) = Neutral
   \<and> get_sentiment_label (1000001 / 10000000) = Positive"
proof -
  have "0 < fl (1 / 10)" by code_simp
  then have "(get_sentiment_label s = Positive \<longleftrightarrow> s > fl (1 / 10))
   \<and> (get_sentiment_label s = Negative \<longleftrightarrow> s < - fl (1 / 10))
   \<and> (get_sentiment_label s = Neutral \<longleftrightarrow> \<not> s > fl (1 / 10) \<and> \<not> s < - fl (1 / 10))"
    by (auto simp: get_sentiment_label_def)
  with label_examples show ?thesis by blast
qed

text \<open>
  C5. The two scores are the sums of what each token contributes.  A positive or negative
  word contributes \<open>1.5\<close> exactly when the token just before it is an intensifier and
  \<open>1.0\<close> otherwise, whatever stands further back: a sentiment word two positions after an
  intensifier, with a non-intensifier in between, contributes \<open>1.0\<close>.
\<close>

theorem intensifier_single_preceding:
  "score_loop words =
     ((\<Sum>i\<leftarrow>[0..<length words]. fst (contribution words i)),
      (\<Sum>i\<leftarrow>[0..<length words]. snd (contribution words i)))
   \<and> (\<forall>i<length words. words ! i \<in> positive_words \<longrightarrow>
         contribution words i =
           (if 0 < i \<and> words ! (i - 1) \<in> intensifiers then 3 / 2 else 1, 0))
   \<and> (\<forall>i<length words. words ! i \<in> negative_words \<longrightarrow>
         contribution words i =
           (0, if 0 < i \<and> words ! (i - 1) \<in> intensifiers then 3 / 2 else 1))
   \<and> (\<forall>i<length words. words ! i \<notin> positive_words \<union> negative_words \<longrightarrow>
         contribution words i = (0, 0))
   \<and> (\<forall>i<length words. 2 \<le> i \<and> words ! (i - 2) \<in> intensifiers
          \<and> words ! (i - 1) \<notin> intensifiers
          \<and> words ! i \<in> positive_words \<union> negative_words
         \<longrightarrow> fst (contribution words i) + snd (contribution words i) = 1)"
  using disjoint_words
  by (auto simp add: score_loop_sum contribution_def score_step_def Let_def)

theorem intensifier_single_preceding_witness:
  "contribution [''very'', ''bad'', ''good''] 2 = (1, 0)
   \<and> contribution [''very'', ''bad'', ''good''] 1 = (0, 3 / 2)
   \<and> score_loop [''very'', ''bad'', ''good''] = (1, 3 / 2)"
  using intensifier_single_preceding [of "[''very'', ''bad'', ''good'']"]
  by (simp add: positive_words_def negative_words_def intensifiers_def
      upt_rec [of 0] upt_rec [of 1] upt_rec [of 2] numeral_3_eq_3 numeral_2_eq_2
      All_less_Suc2)

section \<open>Properties of the hashtag pipeline\<close>

lemma lower_char_hash: "lower_char c = CHR ''#'' \<longleftrightarrow> c = CHR ''#''"
  by (auto simp: lower_char_def split: option.splits if_splits)




lemma length_strip_le: "length (strip s) \<le> length s"
proof -
  have "length (strip s) \<le> length (dropWhile is_space s)"
    unfolding strip_def using length_dropWhile_le [of is_space "rev (dropWhile is_space s)"] by simp
  also have "\<dots> \<le> length s" by (rule length_dropWhile_le)
  finally show ?thesis .
qed







subsection \<open>Insertion-ordered counters\<close>

lemma keys_counter_add:
  "map fst (counter_add x n cs) = (if x \<in> set (map fst cs) then map fst cs else map fst cs @ [x])"
  by (induction cs) (auto split: if_splits)

lemma map_of_counter_add:
  "map_of (counter_add x n cs) y =
     (if y = x then Some (case map_of cs x of None \<Rightarrow> n | Some c \<Rightarrow> c + n) else map_of cs y)"
  by (induction cs) auto

lemma Counter_snoc: "Counter (xs @ [x]) = counter_add x 1 (Counter xs)"
  by (simp add: Counter_def)

lemma keys_Counter: "set (map fst (Counter xs)) = set xs"
proof (induction xs rule: rev_induct)
  case Nil
  show ?case by (simp add: Counter_def)
next
  case (snoc x xs)
  then show ?case
    unfolding Counter_snoc keys_counter_add by auto
qed

lemma distinct_keys_Counter: "distinct (map fst (Counter xs))"
proof (induction xs rule: rev_induct)
  case Nil
  show ?case by (simp add: Counter_def)
next
  case (snoc x xs)
  then show ?case
    unfolding Counter_snoc keys_counter_add by auto
qed

lemma map_of_Counter:
  "map_of (Counter xs) y = (if y \<in> set xs then Some (int (count_list xs y)) else None)"
proof (induction xs rule: rev_induct)
  case Nil
  show ?case by (simp add: Counter_def)
next
  case (snoc x xs)
  then show ?case
    unfolding Counter_snoc map_of_counter_add by (auto simp: count_list_0_iff)
qed

lemma count_list_pos: "x \<in> set xs \<Longrightarrow> 0 < count_list xs x"
  by (induction xs) auto

lemma Counter_entry:
  assumes "(h, c) \<in> set (Counter xs)"
  shows "h \<in> set xs \<and> c = int (count_list xs h) \<and> 0 < c"
proof -
  from assms have "map_of (Counter xs) h = Some c"
    using distinct_keys_Counter [of xs] by simp
  then have "h \<in> set xs \<and> c = int (count_list xs h)"
    by (simp add: map_of_Counter split: if_splits)
  then show ?thesis using count_list_pos [of h xs] by simp
qed

lemma first_index_snoc_old: "y \<in> set xs \<Longrightarrow> first_index (xs @ [x]) y = first_index xs y"
  unfolding first_index_def by (induction xs) auto

lemma first_index_less: "y \<in> set xs \<Longrightarrow> first_index xs y < length xs"
  unfolding first_index_def by (induction xs) auto

lemma first_index_snoc_new: "x \<notin> set xs \<Longrightarrow> first_index (xs @ [x]) x = length xs"
  unfolding first_index_def by (induction xs) auto

lemma keys_Counter_first_seen:
  "sorted_wrt (\<lambda>a b. first_index xs a < first_index xs b) (map fst (Counter xs))"
proof (induction xs rule: rev_induct)
  case Nil
  show ?case by (simp add: Counter_def)
next
  case (snoc x xs)
  let ?ks = "map fst (Counter xs)"
  have old: "sorted_wrt (\<lambda>a b. first_index (xs @ [x]) a < first_index (xs @ [x]) b) ?ks"
    using snoc.IH
    by (rule sorted_wrt_mono_rel [rotated]) (simp add: keys_Counter [simplified] first_index_snoc_old)
  show ?case
  proof (cases "x \<in> set xs")
    case True
    with old show ?thesis
      unfolding Counter_snoc keys_counter_add by (simp add: keys_Counter [simplified])
  next
    case False
    have "\<forall>k\<in>set ?ks. first_index (xs @ [x]) k < first_index (xs @ [x]) x"
      using False by (simp add: keys_Counter [simplified] first_index_snoc_old first_index_snoc_new first_index_less)
    with old False show ?thesis
      unfolding Counter_snoc keys_counter_add 
      by (simp add: keys_Counter [simplified] sorted_wrt_append)
  qed
qed


subsection \<open>Stable descending sort\<close>

lemma insort_key_lex:
  assumes "sorted_wrt (\<lambda>a b. f a < f b \<or> (f a = f b \<and> P a b)) ys"
    and "\<forall>y\<in>set ys. P x y"
  shows "sorted_wrt (\<lambda>a b. f a < f b \<or> (f a = f b \<and> P a b)) (insort_key f x ys)"
  using assms
proof (induction ys)
  case Nil
  show ?case by simp
next
  case (Cons y ys)
  show ?case
  proof (cases "f x \<le> f y")
    case True
    have "\<forall>z\<in>set (y # ys). f x < f z \<or> (f x = f z \<and> P x z)"
    proof
      fix z assume z: "z \<in> set (y # ys)"
      then have "f y \<le> f z" using Cons.prems(1) by auto
      with True have "f x \<le> f z" by simp
      moreover have "P x z" using Cons.prems(2) z by blast
      ultimately show "f x < f z \<or> (f x = f z \<and> P x z)" by auto
    qed
    with True Cons.prems(1) show ?thesis by simp
  next
    case False
    then have "f y < f x" by simp
    moreover have "sorted_wrt (\<lambda>a b. f a < f b \<or> (f a = f b \<and> P a b)) (insort_key f x ys)"
      using Cons by simp
    ultimately show ?thesis using False Cons.prems(1) by (auto simp: set_insort_key)
  qed
qed

lemma sort_key_lex:
  "sorted_wrt P xs \<Longrightarrow>
   sorted_wrt (\<lambda>a b. f a < f b \<or> (f a = f b \<and> P a b)) (sort_key f xs)"
proof (induction xs)
  case Nil
  show ?case by simp
next
  case (Cons x xs)
  then have "sorted_wrt (\<lambda>a b. f a < f b \<or> (f a = f b \<and> P a b)) (sort_key f xs)"
    and "\<forall>y\<in>set (sort_key f xs). P x y"
    by simp_all
  then show ?case
    using insort_key_lex [of f P "sort_key f xs" x] by simp
qed

lemma sorted_desc_Counter: "sorted_wrt (ranked_before xs) (sorted_desc (Counter xs))"
proof -
  have "sorted_wrt (\<lambda>a b. first_index xs (fst a) < first_index xs (fst b)) (Counter xs)"
    using keys_Counter_first_seen [of xs] by (simp add: sorted_wrt_map)
  then have "sorted_wrt (\<lambda>a b. - snd a < - snd b \<or>
      (- snd a = - snd b \<and> first_index xs (fst a) < first_index xs (fst b)))
      (sort_key (\<lambda>item. - snd item) (Counter xs))"
    by (rule sort_key_lex)
  then show ?thesis
    unfolding sorted_desc_def
    by (rule sorted_wrt_mono_rel [rotated]) (auto simp: ranked_before_def)
qed

lemma most_common_Counter:
  "sorted_wrt (ranked_before xs) (most_common n (Counter xs))"
  unfolding most_common_def using sorted_desc_Counter by (rule sorted_wrt_take)

lemma most_common_length: "length (most_common n items) \<le> n"
  by (simp add: most_common_def)

lemma most_common_subset: "set (most_common n items) \<subseteq> set items"
  unfolding most_common_def sorted_desc_def using set_take_subset [of n "sort_key (\<lambda>item. - snd item) items"] by simp

lemma most_common_omitted:
  assumes "(h, c) \<in> set (Counter xs)" "(h, c) \<notin> set (most_common n (Counter xs))"
  shows "length (most_common n (Counter xs)) = n
         \<and> (\<forall>e\<in>set (most_common n (Counter xs)). ranked_before xs e (h, c))"
proof -
  let ?l = "sorted_desc (Counter xs)"
  have "(h, c) \<in> set ?l" using assms(1) by (simp add: sorted_desc_def)
  then have "(h, c) \<in> set (take n ?l) \<union> set (drop n ?l)"
    by (metis append_take_drop_id set_append)
  with assms(2) have d: "(h, c) \<in> set (drop n ?l)" by (simp add: most_common_def)
  then have "n < length ?l" by (cases "n < length ?l") auto
  then have len: "length (most_common n (Counter xs)) = n" by (simp add: most_common_def)
  have "sorted_wrt (ranked_before xs) (take n ?l @ drop n ?l)"
    using sorted_desc_Counter [of xs] by simp
  then have "\<forall>e\<in>set (take n ?l). \<forall>e'\<in>set (drop n ?l). ranked_before xs e e'"
    unfolding sorted_wrt_append by blast
  with d len show ?thesis by (auto simp: most_common_def)
qed

subsection \<open>Grouping by month\<close>

lemma keys_dict_append:
  "map fst (dict_append k v d) = (if k \<in> set (map fst d) then map fst d else map fst d @ [k])"
  by (induction d) (auto split: if_splits)

lemma map_of_dict_append:
  "map_of (dict_append k v d) k' =
     (if k' = k then Some ((case map_of d k of None \<Rightarrow> [] | Some vs \<Rightarrow> vs) @ [v]) else map_of d k')"
  by (induction d) auto

lemma group_by_month_snoc:
  "group_by_month (xs @ [(m, h)]) = dict_append m h (group_by_month xs)"
  by (simp add: group_by_month_def)

lemma keys_group_by_month: "set (map fst (group_by_month xs)) = fst ` set xs"
proof (induction xs rule: rev_induct)
  case Nil
  show ?case by (simp add: group_by_month_def)
next
  case (snoc e xs)
  obtain m h where e: "e = (m, h)" by (cases e)
  from snoc show ?case
    unfolding e group_by_month_snoc keys_dict_append by auto
qed

lemma distinct_group_by_month: "distinct (map fst (group_by_month xs))"
proof (induction xs rule: rev_induct)
  case Nil
  show ?case by (simp add: group_by_month_def)
next
  case (snoc e xs)
  obtain m h where e: "e = (m, h)" by (cases e)
  from snoc show ?case
    unfolding e group_by_month_snoc keys_dict_append by auto
qed

lemma map_of_group_by_month:
  "map_of (group_by_month xs) m =
     (if m \<in> fst ` set xs then Some (hashtags_of_month xs m) else None)"
proof (induction xs rule: rev_induct)
  case Nil
  show ?case by (simp add: group_by_month_def)
next
  case (snoc e xs)
  obtain m' h where e: "e = (m', h)" by (cases e)
  from snoc show ?case
    unfolding e group_by_month_snoc map_of_dict_append
    by (auto simp: hashtags_of_month_def image_iff filter_empty_conv)
qed

lemma group_by_month_entry:
  assumes "(m, hs) \<in> set (group_by_month xs)"
  shows "m \<in> fst ` set xs \<and> hs = hashtags_of_month xs m"
proof -
  from assms have "map_of (group_by_month xs) m = Some hs"
    using distinct_group_by_month [of xs] by simp
  then show ?thesis by (simp add: map_of_group_by_month split: if_splits)
qed


text \<open>
  C6. The result of \<open>reduce_hashtags\<close> has exactly the months of the input as keys, each
  once.  The list of a month has at most 10 pairs; each pair is a hashtag of that month with
  its number of occurrences; the list is ordered by count descending, equal counts in the
  order in which the hashtags were first met in that month; and a hashtag of the month that
  is left out ranks after all 10 that are kept.
\<close>

theorem reduce_hashtags_top10:
  "distinct (map fst (reduce_hashtags mapped_data))
   \<and> fst ` set (reduce_hashtags mapped_data) = fst ` set mapped_data
   \<and> (\<forall>(month, top) \<in> set (reduce_hashtags mapped_data).
         length top \<le> 10
         \<and> sorted_wrt (ranked_before (hashtags_of_month mapped_data month)) top
         \<and> (\<forall>(h, c) \<in> set top.
               h \<in> set (hashtags_of_month mapped_data month)
               \<and> c = int (count_list (hashtags_of_month mapped_data month) h))
         \<and> (\<forall>h \<in> set (hashtags_of_month mapped_data month) - fst ` set top.
               length top = 10
               \<and> (\<forall>e \<in> set top. ranked_before (hashtags_of_month mapped_data month) e
                     (h, int (count_list (hashtags_of_month mapped_data month) h)))))"
proof -
  have keys: "map fst (reduce_hashtags mapped_data) = map fst (group_by_month mapped_data)"
    by (simp add: reduce_hashtags_def split_def comp_def)
  have d: "distinct (map fst (reduce_hashtags mapped_data))"
    unfolding keys by (rule distinct_group_by_month)
  have k: "fst ` set (reduce_hashtags mapped_data) = fst ` set mapped_data"
    using keys_group_by_month [of mapped_data] keys by (metis set_map)
  have e: "length top \<le> 10
         \<and> sorted_wrt (ranked_before (hashtags_of_month mapped_data month)) top
         \<and> (\<forall>(h, c) \<in> set top.
               h \<in> set (hashtags_of_month mapped_data month)
               \<and> c = int (count_list (hashtags_of_month mapped_data month) h))
         \<and> (\<forall>h \<in> set (hashtags_of_month mapped_data month) - fst ` set top.
               length top = 10
               \<and> (\<forall>e \<in> set top. ranked_before (hashtags_of_month mapped_data month) e
                     (h, int (count_list (hashtags_of_month mapped_data month) h))))"
    if "(month, top) \<in> set (reduce_hashtags mapped_data)" for month top
  proof -
    let ?hs = "hashtags_of_month mapped_data month"
    from that obtain hs where "(month, hs) \<in> set (group_by_month mapped_data)"
      and top: "top = most_common 10 (Counter hs)"
      by (auto simp: reduce_hashtags_def)
    then have hs: "hs = ?hs" using group_by_month_entry by blast
    have 1: "length top \<le> 10" unfolding top by (rule most_common_length)
    have 2: "sorted_wrt (ranked_before ?hs) top"
      unfolding top hs by (rule most_common_Counter)
    have 3: "\<forall>(h, c) \<in> set top. h \<in> set ?hs \<and> c = int (count_list ?hs h)"
      using most_common_subset [of 10 "Counter ?hs"] Counter_entry [of _ _ ?hs]
      unfolding top hs by blast
    have 4: "\<forall>h \<in> set ?hs - fst ` set top. length top = 10
               \<and> (\<forall>e \<in> set top. ranked_before ?hs e (h, int (count_list ?hs h)))"
    proof
      fix h assume h: "h \<in> set ?hs - fst ` set top"
      then have "map_of (Counter ?hs) h = Some (int (count_list ?hs h))"
        by (simp add: map_of_Counter)
      then have "(h, int (count_list ?hs h)) \<in> set (Counter ?hs)"
        by (rule map_of_SomeD)
      moreover have "(h, int (count_list ?hs h)) \<notin> set top"
        using h by force
      ultimately show "length top = 10
               \<and> (\<forall>e \<in> set top. ranked_before ?hs e (h, int (count_list ?hs h)))"
        using most_common_omitted [of h _ ?hs 10] unfolding top hs by blast
    qed
    from 1 2 3 4 show ?thesis by blast
  qed
  from d k e show ?thesis by blast
qed


theorem reduce_hashtags_top10_witness:
  "reduce_hashtags [(''2024-03'', ''ml''), (''2024-03'', ''ai''), (''2024-04'', ''ai''),
      (''2024-03'', ''ai''), (''2024-03'', ''ml''), (''2024-03'', ''iot'')]
   = [(''2024-03'', [(''ml'', 2), (''ai'', 2), (''iot'', 1)]), (''2024-04'', [(''ai'', 1)])]
   \<and> sorted_wrt (ranked_before [''ml'', ''ai'', ''ai'', ''ml'', ''iot''])
        [(''ml'', 2), (''ai'', 2), (''iot'', 1)]"
  using reduce_hashtags_top10 [of "[(''2024-03'', ''ml''), (''2024-03'', ''ai''),
      (''2024-04'', ''ai''), (''2024-03'', ''ai''), (''2024-03'', ''ml''), (''2024-03'', ''iot'')]"]
  by (simp add: reduce_hashtags_def group_by_month_def Counter_def most_common_def
      sorted_desc_def hashtags_of_month_def)

section \<open>Properties of the streaming reducer\<close>

subsection \<open>Splitting\<close>












subsection \<open>The counter after the input loop\<close>















subsection \<open>The output loop\<close>















section \<open>Properties of the regional specialties\<close>

lemma counter_get_Counter: "counter_get (Counter xs) t = int (count_list xs t)"
  by (simp add: counter_get_def map_of_Counter count_list_0_iff)

lemma specialty_of_Counter:
  assumes "(t, c) \<in> set (Counter themes)" "set themes \<subseteq> set all_themes"
  shows "specialty_of (Counter all_themes) (length all_themes) (length themes) (t, c) =
           Inr (if qualifies all_themes themes t then Some (ideal_specialty all_themes themes t)
                else None)"
proof -
  from Counter_entry [OF assms(1)] have t: "t \<in> set themes" and c: "c = int (count_list themes t)"
    by simp_all
  from t have len: "length themes \<noteq> 0" by auto
  from t assms(2) have ta: "t \<in> set all_themes" by blast
  then have lena: "length all_themes \<noteq> 0" by auto
  from ta have g: "count_list all_themes t \<noteq> 0" by (simp add: count_list_0_iff)
  have l: "py_div (of_int c) (of_nat (length themes)) = Inr (share themes t)"
    using len by (simp add: py_div_def share_def exact_share_def c)
  have gl: "py_div (of_int (counter_get (Counter all_themes) t)) (of_nat (length all_themes))
      = Inr (share all_themes t)"
    using lena by (simp add: py_div_def share_def exact_share_def counter_get_Counter)
  have "exact_share all_themes t \<noteq> 0"
    using g lena by (simp add: exact_share_def)
  then have nz: "share all_themes t \<noteq> 0"
    unfolding share_def by (rule fl_nonzero)
  have r: "py_div (share themes t) (share all_themes t)
      = Inr (fl (share themes t / share all_themes t))"
    using nz by (simp add: py_div_def)
  have q: "qualifies all_themes themes t \<longleftrightarrow>
      share themes t > fl (share all_themes t * (3 / 2)) \<and> c \<ge> 2"
    by (simp add: qualifies_def c)
  show ?thesis
    unfolding specialty_of_def by (simp add: l gl r q ideal_specialty_def)
qed

lemma specialties_loop_Counter:
  assumes "set items \<subseteq> set (Counter themes)" "set themes \<subseteq> set all_themes"
  shows "specialties_loop (Counter all_themes) (length all_themes) (length themes) items acc =
           Inr (acc @ map (ideal_specialty all_themes themes)
                        (filter (qualifies all_themes themes) (map fst items)))"
  using assms(1)
proof (induction items arbitrary: acc)
  case Nil
  show ?case by simp
next
  case (Cons item items)
  obtain t c where item: "item = (t, c)" by (cases item)
  have "(t, c) \<in> set (Counter themes)" using Cons.prems item by simp
  note s = specialty_of_Counter [OF this assms(2)]
  have sub: "set items \<subseteq> set (Counter themes)" using Cons.prems by simp
  show ?case
    unfolding item by (simp add: s Cons.IH [OF sub])
qed

lemma regions_loop_fold:
  assumes "\<forall>(country, themes)\<in>set rest. set themes \<subseteq> set all_themes"
  shows "regions_loop (Counter all_themes) (length all_themes) rest acc =
           Inr (fold (region_step all_themes) rest acc)"
  using assms
proof (induction rest arbitrary: acc)
  case Nil
  show ?case by simp
next
  case (Cons entry rest)
  obtain country themes where e: "entry = (country, themes)" by (cases entry)
  have sub: "set themes \<subseteq> set all_themes" using Cons.prems e by simp
  have rest: "\<forall>(country, themes)\<in>set rest. set themes \<subseteq> set all_themes"
    using Cons.prems by simp
  have l: "specialties_loop (Counter all_themes) (length all_themes) (length themes)
             (Counter themes) [] =
           Inr (map (ideal_specialty all_themes themes)
                        (filter (qualifies all_themes themes) (map fst (Counter themes))))"
    using specialties_loop_Counter [OF subset_refl sub, of "[]"] by simp
  have "regions_loop (Counter all_themes) (length all_themes) (entry # rest) acc =
      regions_loop (Counter all_themes) (length all_themes) rest (region_step all_themes entry acc)"
    unfolding e by (simp add: Let_def l region_step_def region_specialties_def)
  then show ?case
    by (simp add: Cons.IH [OF rest])
qed

lemma themes_in_all:
  "\<forall>(country, themes)\<in>set tbc. set themes \<subseteq> set (concat (map snd tbc))"
  by auto

lemma map_of_dict_set:
  "map_of (dict_set k v d) k' = (if k' = k then Some v else map_of d k')"
  by (induction d) auto

lemma map_of_fold_region_step:
  assumes "distinct (map fst tbc)"
  shows "map_of (fold (region_step all_themes) tbc acc) country =
           (case map_of tbc country of
              None \<Rightarrow> map_of acc country
            | Some themes \<Rightarrow>
                if themes = [] then map_of acc country
                else Some (region_specialties all_themes themes))"
  using assms
proof (induction tbc arbitrary: acc)
  case Nil
  show ?case by simp
next
  case (Cons entry tbc)
  obtain c themes where e: "entry = (c, themes)" by (cases entry)
  from Cons.prems e have d: "distinct (map fst tbc)" and c: "c \<notin> fst ` set tbc" by simp_all
  from c have n: "map_of tbc c = None" by (simp add: map_of_eq_None_iff)
  have step: "fold (region_step all_themes) (entry # tbc) acc =
      fold (region_step all_themes) tbc (region_step all_themes entry acc)"
    by simp
  have m: "map_of (region_step all_themes (c, themes) acc) k =
      (if k = c \<and> themes \<noteq> [] then Some (region_specialties all_themes themes)
       else map_of acc k)" for k
    by (simp add: region_step_def map_of_dict_set)
  show ?case
    unfolding step Cons.IH [OF d] using n
    by (auto simp: e m split: option.splits)
qed

lemma theme_ideal: "theme (ideal_specialty all_themes themes t) = t"
  by (simp add: ideal_specialty_def)

lemma region_specialties_props:
  "theme ` set (region_specialties all_themes themes) =
      {t \<in> set themes. qualifies all_themes themes t}
   \<and> distinct (map theme (region_specialties all_themes themes))
   \<and> sorted_wrt (\<lambda>a b. over_representation a \<ge> over_representation b)
        (region_specialties all_themes themes)
   \<and> (\<forall>s\<in>set (region_specialties all_themes themes).
        s = ideal_specialty all_themes themes (theme s))"
proof -
  let ?qs = "filter (qualifies all_themes themes) (map fst (Counter themes))"
  let ?l = "map (ideal_specialty all_themes themes) ?qs"
  have set: "set (region_specialties all_themes themes) = set ?l"
    by (simp add: region_specialties_def sort_specialties_def)
  have "theme ` set ?l = set ?qs"
    by (simp add: image_image theme_ideal)
  also have "\<dots> = {t \<in> set themes. qualifies all_themes themes t}"
    using keys_Counter [of themes] by auto
  finally have 1: "theme ` set (region_specialties all_themes themes) =
      {t \<in> set themes. qualifies all_themes themes t}"
    unfolding set .
  have "map theme ?l = ?qs"
    by (simp add: comp_def theme_ideal)
  moreover have "distinct ?qs"
    using distinct_keys_Counter [of themes] by simp
  ultimately have "distinct (map theme ?l)" by simp
  then have "distinct ?l" and "inj_on theme (set ?l)"
    by (simp_all only: distinct_map)
  then have "distinct (sort_specialties ?l)" and "inj_on theme (set (sort_specialties ?l))"
    by (simp_all add: sort_specialties_def)
  then have 2: "distinct (map theme (region_specialties all_themes themes))"
    unfolding region_specialties_def by (simp only: distinct_map)
  have "sorted (map (\<lambda>s. - over_representation s) (region_specialties all_themes themes))"
    unfolding region_specialties_def sort_specialties_def by (rule sorted_sort_key)
  then have 3: "sorted_wrt (\<lambda>a b. over_representation a \<ge> over_representation b)
        (region_specialties all_themes themes)"
    by (simp add: sorted_map)
  have 4: "\<forall>s\<in>set (region_specialties all_themes themes).
        s = ideal_specialty all_themes themes (theme s)"
    unfolding set by (auto simp: theme_ideal)
  from 1 2 3 4 show ?thesis by blast
qed

lemma analyze_themes_by_region_fold:
  "analyze_themes_by_region tbc =
     Inr \<lparr>global_themes = most_common 10 (Counter (concat (map snd tbc))),
          regional_specialties = fold (region_step (concat (map snd tbc))) tbc []\<rparr>"
  unfolding analyze_themes_by_region_def Let_def
  by (simp add: regions_loop_fold [OF themes_in_all])

lemma regional_example:
  "analyze_themes_by_region
     [(''France'', [''ai'', ''ai'', ''cloud'']), (''Japan'', []),
      (''Spain'', [''cloud'', ''cloud'', ''iot'', ''general'', ''iot''])]
   = Inr \<lparr>global_themes = [(''cloud'', 3), (''ai'', 2), (''iot'', 2), (''general'', 1)],
          regional_specialties =
            [(''France'', [\<lparr>theme = ''ai'', local_percentage = fl (667 / 10),
                            global_percentage = 25, over_representation = fl (267 / 100)\<rparr>]),
             (''Spain'', [\<lparr>theme = ''iot'', local_percentage = 40,
                           global_percentage = 25, over_representation = fl (8 / 5)\<rparr>])]\<rparr>"
  by code_simp

text \<open>
  C8 (as stated). Two inputs.  In the first, France has \<open>ai\<close> 9 times among its 10 themes
  and \<open>ai\<close> occurs 9 times among all 15 themes: the local share equals 1.5 times the
  global share and does not exceed it, but the float \<open>0.6 * 1.5\<close> is below the float
  \<open>0.9\<close>, and \<open>ai\<close> is recorded as a specialty with ratio \<open>1.5\<close>.  In the second,
  \<open>cloud\<close> is listed before \<open>ai\<close> for France although its ratio of shares is the
  smaller one: both ratios round to \<open>1.53\<close>, and the sort is by the rounded ratio.
\<close>

theorem regional_specialties_counterexample:
  "\<not> exact_share (replicate 9 ''ai'' @ [''cloud'']) ''ai''
       > exact_share ((replicate 9 ''ai'' @ [''cloud'']) @ replicate 5 ''cloud'') ''ai'' * (3 / 2)
   \<and> ranking (analyze_themes_by_region
          [(''France'', replicate 9 ''ai'' @ [''cloud'']), (''Japan'', replicate 5 ''cloud'')])
        ''France'' = [(''ai'', 3 / 2)]
   \<and> exact_ratio
         ((replicate 13 ''cloud'' @ replicate 14 ''ai'' @ [''general''])
            @ [''cloud'', ''ai''] @ replicate 16 ''general'')
         (replicate 13 ''cloud'' @ replicate 14 ''ai'' @ [''general'']) ''cloud''
       < exact_ratio
         ((replicate 13 ''cloud'' @ replicate 14 ''ai'' @ [''general''])
            @ [''cloud'', ''ai''] @ replicate 16 ''general'')
         (replicate 13 ''cloud'' @ replicate 14 ''ai'' @ [''general'']) ''ai''
   \<and> ranking (analyze_themes_by_region
          [(''France'', replicate 13 ''cloud'' @ replicate 14 ''ai'' @ [''general'']),
           (''Japan'', [''cloud'', ''ai''] @ replicate 16 ''general'')])
        ''France'' = [(''cloud'', fl (153 / 100)), (''ai'', fl (153 / 100))]"
  by code_simp

text \<open>
  C8 (amended). \<open>_analyze_themes_by_region\<close> never raises \<open>ZeroDivisionError\<close>.  For a
  dictionary \<open>themes_by_country\<close>: a country without themes gets no entry in
  \<open>regional_specialties\<close>; for a country with themes the divisors are nonzero (its number
  of themes, the number of all themes, and the global count and the float global share of
  each of its themes); its specialties are exactly its themes whose float local share
  exceeds the float product of the float global share and 1.5 and whose local count is at
  least 2, each once, with the recorded shares and ratio, sorted by the recorded ratio (the
  float ratio rounded to two decimals) descending.
\<close>

theorem regional_specialties_safe:
  "\<exists>r. analyze_themes_by_region themes_by_country = Inr r
     \<and> (distinct (map fst themes_by_country) \<longrightarrow>
          (\<forall>(country, themes)\<in>set themes_by_country.
             (themes = [] \<longrightarrow> map_of (regional_specialties r) country = None)
             \<and> (themes \<noteq> [] \<longrightarrow>
                  length themes \<noteq> 0
                  \<and> length (concat (map snd themes_by_country)) \<noteq> 0
                  \<and> (\<forall>t\<in>set themes.
                        counter_get (Counter (concat (map snd themes_by_country))) t \<noteq> 0
                        \<and> share (concat (map snd themes_by_country)) t \<noteq> 0)
                  \<and> (\<exists>sp. map_of (regional_specialties r) country = Some sp
                        \<and> theme ` set sp =
                            {t \<in> set themes.
                               qualifies (concat (map snd themes_by_country)) themes t}
                        \<and> distinct (map theme sp)
                        \<and> sorted_wrt (\<lambda>a b. over_representation a \<ge> over_representation b) sp
                        \<and> (\<forall>s\<in>set sp.
                              s = ideal_specialty (concat (map snd themes_by_country)) themes
                                    (theme s))))))"
proof -
  let ?all = "concat (map snd themes_by_country)"
  let ?rs = "fold (region_step ?all) themes_by_country []"
  let ?r = "\<lparr>global_themes = most_common 10 (Counter ?all), regional_specialties = ?rs\<rparr>"
  have r: "analyze_themes_by_region themes_by_country = Inr ?r"
    by (rule analyze_themes_by_region_fold)
  have main: "(themes = [] \<longrightarrow> map_of ?rs country = None)
             \<and> (themes \<noteq> [] \<longrightarrow>
                  length themes \<noteq> 0
                  \<and> length ?all \<noteq> 0
                  \<and> (\<forall>t\<in>set themes. counter_get (Counter ?all) t \<noteq> 0 \<and> share ?all t \<noteq> 0)
                  \<and> (\<exists>sp. map_of ?rs country = Some sp
                        \<and> theme ` set sp = {t \<in> set themes. qualifies ?all themes t}
                        \<and> distinct (map theme sp)
                        \<and> sorted_wrt (\<lambda>a b. over_representation a \<ge> over_representation b) sp
                        \<and> (\<forall>s\<in>set sp. s = ideal_specialty ?all themes (theme s))))"
    if d: "distinct (map fst themes_by_country)" and e: "(country, themes) \<in> set themes_by_country"
    for country themes
  proof -
    have m: "map_of themes_by_country country = Some themes"
      using d e by simp
    have lookup: "map_of ?rs country =
        (if themes = [] then None else Some (region_specialties ?all themes))"
      using map_of_fold_region_step [OF d, of ?all "[]" country] m by simp
    have sub: "set themes \<subseteq> set ?all" using e by auto
    have nz: "length ?all \<noteq> 0 \<and> counter_get (Counter ?all) t \<noteq> 0 \<and> share ?all t \<noteq> 0"
      if "t \<in> set themes" for t
    proof -
      from that sub have t: "t \<in> set ?all" by blast
      then have "?all \<noteq> []" by (rule_tac notI) simp
      then have "length ?all \<noteq> 0" by (simp only: length_0_conv not_False_eq_True)
      moreover have "count_list ?all t \<noteq> 0" using t by (simp add: count_list_0_iff)
      moreover have "share ?all t \<noteq> 0"
        unfolding share_def
      proof (rule fl_nonzero)
        show "exact_share ?all t \<noteq> 0"
          using \<open>count_list ?all t \<noteq> 0\<close> \<open>length ?all \<noteq> 0\<close>
          by (simp add: exact_share_def)
      qed
      ultimately show ?thesis
        by (simp only: counter_get_Counter) simp
    qed
    show ?thesis
    proof (cases "themes = []")
      case True
      then show ?thesis using lookup by simp
    next
      case False
      then obtain t0 where "t0 \<in> set themes" by (cases themes) auto
      with nz have "length ?all \<noteq> 0" by blast
      moreover have "\<forall>t\<in>set themes. counter_get (Counter ?all) t \<noteq> 0 \<and> share ?all t \<noteq> 0"
        using nz by blast
      moreover have "map_of ?rs country = Some (region_specialties ?all themes)"
        using lookup False by simp
      ultimately show ?thesis
        using False region_specialties_props [of ?all themes] by blast
    qed
  qed
  have "distinct (map fst themes_by_country) \<longrightarrow>
          (\<forall>(country, themes)\<in>set themes_by_country.
             (themes = [] \<longrightarrow> map_of ?rs country = None)
             \<and> (themes \<noteq> [] \<longrightarrow>
                  length themes \<noteq> 0
                  \<and> length ?all \<noteq> 0
                  \<and> (\<forall>t\<in>set themes. counter_get (Counter ?all) t \<noteq> 0 \<and> share ?all t \<noteq> 0)
                  \<and> (\<exists>sp. map_of ?rs country = Some sp
                        \<and> theme ` set sp = {t \<in> set themes. qualifies ?all themes t}
                        \<and> distinct (map theme sp)
                        \<and> sorted_wrt (\<lambda>a b. over_representation a \<ge> over_representation b) sp
                        \<and> (\<forall>s\<in>set sp. s = ideal_specialty ?all themes (theme s)))))"
    using main by blast
  then show ?thesis
    unfolding r by simp
qed

theorem regional_specialties_safe_witness:
  "distinct (map fst [(''France'', [''ai'', ''ai'', ''cloud'']), (''Japan'', []),
      (''Spain'', [''cloud'', ''cloud'', ''iot'', ''general'', ''iot''])])
   \<and> analyze_themes_by_region
       [(''France'', [''ai'', ''ai'', ''cloud'']), (''Japan'', []),
        (''Spain'', [''cloud'', ''cloud'', ''iot'', ''general'', ''iot''])]
     = Inr \<lparr>global_themes = [(''cloud'', 3), (''ai'', 2), (''iot'', 2), (''general'', 1)],
            regional_specialties =
              [(''France'', [\<lparr>theme = ''ai'', local_percentage = fl (667 / 10),
                              global_percentage = 25, over_representation = fl (267 / 100)\<rparr>]),
               (''Spain'', [\<lparr>theme = ''iot'', local_percentage = 40,
                             global_percentage = 25, over_representation = fl (8 / 5)\<rparr>])]\<rparr>"
  using regional_specialties_safe [of "[(''France'', [''ai'', ''ai'', ''cloud'']), (''Japan'', []),
      (''Spain'', [''cloud'', ''cloud'', ''iot'', ''general'', ''iot''])]"] regional_example
  by simp

section \<open>Properties of the streaming mapper\<close>

lemma tweet_content_empty:
  "tweet_content t = [] \<longleftrightarrow>
     get_str (tweet_text t) = [] \<and> get_str (text_field t) = [] \<and> get_str (full_text t) = []"
  by (simp add: tweet_content_def)

lemma map_tweet_textless: "tweet_content t = [] \<Longrightarrow> map_tweet analysis_type t = []"
  by (simp add: map_tweet_def)

lemma mapper_combined_textless:
  "list_all (\<lambda>t. tweet_content t = []) tweet_list \<Longrightarrow> mapper_combined env tweet_list = []"
  by (simp add: mapper_combined_def Let_def map_tweet_textless list_all_iff)

lemma paris_example:
  "map_tweet ''geography'' paris_without_text = []
   \<and> map_geographic_data paris_without_text =
       Some \<lparr>p_location = \<lparr>li_city = ''Paris'', li_country = ''France'',
                            li_coordinates = [''48.8566'', ''2.3522'']\<rparr>,
             p_themes = [''general''], p_month = ''2024-03'', p_tweet_text = []\<rparr>
   \<and> map_tweet ''geography'' (paris_without_text\<lparr>tweet_text := Some ''hello''\<rparr>) =
       [mapper_line ''LOCATION'' ''2024-01'' ''Paris'',
        mapper_line ''COORDINATES'' ''2024-01'' ''48.8566,2.3522'']"
  by code_simp

text \<open>
  C10. A tweet whose members \<open>tweet_text\<close>, \<open>text\<close> and \<open>full_text\<close> are all absent
  or empty makes the streaming mapper print nothing, whatever the analysis type; a batch of
  such tweets gives no output.  In particular the tweet from Paris without text gives no
  line under \<open>geography\<close>, while \<open>map_geographic_data\<close> returns a payload for it, and
  the same tweet with a text gives its location and coordinates lines.
\<close>

theorem mapper_skips_textless:
  "(get_str (tweet_text t) = [] \<and> get_str (text_field t) = [] \<and> get_str (full_text t) = []
      \<longrightarrow> map_tweet analysis_type t = [])
   \<and> (list_all (\<lambda>t. get_str (tweet_text t) = [] \<and> get_str (text_field t) = []
                       \<and> get_str (full_text t) = []) tweet_list
      \<longrightarrow> mapper_combined env tweet_list = [])
   \<and> map_tweet ''geography'' paris_without_text = []
   \<and> map_geographic_data paris_without_text =
       Some \<lparr>p_location = \<lparr>li_city = ''Paris'', li_country = ''France'',
                            li_coordinates = [''48.8566'', ''2.3522'']\<rparr>,
             p_themes = [''general''], p_month = ''2024-03'', p_tweet_text = []\<rparr>
   \<and> map_tweet ''geography'' (paris_without_text\<lparr>tweet_text := Some ''hello''\<rparr>) =
       [mapper_line ''LOCATION'' ''2024-01'' ''Paris'',
        mapper_line ''COORDINATES'' ''2024-01'' ''48.8566,2.3522'']"
  using map_tweet_textless [of t analysis_type] mapper_combined_textless [of tweet_list env]
    paris_example
  by (simp add: tweet_content_empty)

theorem mapper_skips_textless_witness:
  "get_str (tweet_text (paris_without_text :: tag tweet)) = []
   \<and> get_str (text_field (paris_without_text :: tag tweet)) = []
   \<and> get_str (full_text (paris_without_text :: tag tweet)) = []
   \<and> map_tweet ''geography'' paris_without_text = []
   \<and> mapper_combined (Some ''GEOGRAPHY'') [paris_without_text, paris_without_text] = []"
  using mapper_skips_textless [of paris_without_text "''geography''"
      "[paris_without_text, paris_without_text]" "Some ''GEOGRAPHY''"]
  by (simp add: paris_without_text_def get_str_def)

subsection \<open>What a directive reads\<close>

lemma match_classes_reads:
  "match_classes cls s = Some (m, rest) \<Longrightarrow> s = m @ rest \<and> list_all2 (\<lambda>c cl. c \<in> set cl) m cls"
proof (induction cls s arbitrary: m rule: match_classes.induct)
  case (1 s)
  then show ?case by simp
next
  case (2 cl cls)
  then show ?case by simp
next
  case (3 cl cls c cs)
  then show ?case
    by (auto split: if_splits option.splits)
qed

lemma in_map_filter: "y \<in> set (List.map_filter f xs) \<Longrightarrow> \<exists>x\<in>set xs. f x = Some y"
  by (induction xs) (auto split: option.splits)

lemma alternatives_reads:
  assumes "(m, rest) \<in> set (alternatives alts s)"
  shows "\<exists>alt\<in>set alts. s = m @ rest \<and> list_all2 (\<lambda>c cl. c \<in> set cl) m alt"
proof -
  from assms obtain alt where "alt \<in> set alts" "match_classes alt s = Some (m, rest)"
    unfolding alternatives_def using in_map_filter by fast
  then show ?thesis using match_classes_reads by blast
qed

lemma classes_subset:
  "list_all2 (\<lambda>c cl. c \<in> set cl) m alt \<Longrightarrow> \<forall>cl\<in>set alt. set cl \<subseteq> C \<Longrightarrow> set m \<subseteq> C"
  by (induction m alt rule: list_all2_induct) auto

lemma number_reads:
  assumes "(v, rest) \<in> set (number alts s)" "\<forall>alt\<in>set alts. \<forall>cl\<in>set alt. set cl \<subseteq> C"
  shows "\<exists>m. s = m @ rest \<and> set m \<subseteq> C"
proof -
  from assms(1) obtain m where "(m, rest) \<in> set (alternatives alts s)"
    by (auto simp: number_def)
  from alternatives_reads [OF this] obtain alt where alt: "alt \<in> set alts" "s = m @ rest"
    "list_all2 (\<lambda>c cl. c \<in> set cl) m alt" by blast
  have "set m \<subseteq> C" using classes_subset [OF alt(3)] assms(2) alt(1) by blast
  with alt(2) show ?thesis by blast
qed

lemma dir_reads:
  "(v, rest) \<in> set (dir_m s) \<Longrightarrow> \<exists>m. s = m @ rest \<and> set m \<subseteq> numeric"
  "(v, rest) \<in> set (dir_d s) \<Longrightarrow> \<exists>m. s = m @ rest \<and> set m \<subseteq> numeric"
  "(v, rest) \<in> set (dir_H s) \<Longrightarrow> \<exists>m. s = m @ rest \<and> set m \<subseteq> numeric"
  "(v, rest) \<in> set (dir_M s) \<Longrightarrow> \<exists>m. s = m @ rest \<and> set m \<subseteq> numeric"
  "(v, rest) \<in> set (dir_S s) \<Longrightarrow> \<exists>m. s = m @ rest \<and> set m \<subseteq> numeric"
  unfolding dir_m_def dir_d_def dir_H_def dir_M_def dir_S_def
  by (erule number_reads, simp add: numeric_def d09_def d19_def)+

lemma dir_Y_reads:
  assumes "(v, rest) \<in> set (dir_Y s)"
  shows "\<exists>c m. s = c # m @ rest \<and> is_digit c \<and> set m \<subseteq> numeric"
proof -
  from assms obtain m where "(m, rest) \<in> set (alternatives [[d09, d09, d09, d09]] s)"
    by (auto simp: dir_Y_def number_def)
  from alternatives_reads [OF this]
  have s: "s = m @ rest" and l: "list_all2 (\<lambda>c cl. c \<in> set cl) m [d09, d09, d09, d09]"
    by simp_all
  from l obtain c m' where m: "m = c # m'" "c \<in> set d09"
    "list_all2 (\<lambda>c cl. c \<in> set cl) m' [d09, d09, d09]"
    by (auto simp: list_all2_Cons2)
  have "set m' \<subseteq> numeric"
    using classes_subset [OF m(3), of numeric] by (simp add: numeric_def d09_def)
  moreover have "is_digit c" using m(2) by (simp add: is_digit_def d09_def)
  ultimately show ?thesis using s m(1) by auto
qed

lemma blanks_reads:
  assumes "rest \<in> set (blanks s)"
  shows "\<exists>m. s = m @ rest \<and> (\<forall>c\<in>set m. is_space c)"
proof -
  from assms obtain k where "k \<in> set [1..<Suc (length (takeWhile is_space s))]"
    and r: "rest = drop k s"
    unfolding blanks_def by auto
  then have k: "k \<le> length (takeWhile is_space s)" "rest = drop k s"
    by auto
  have "take k s = take k (takeWhile is_space s)"
    using k(1) by (metis takeWhile_dropWhile_id take_append append_Nil2 diff_is_0_eq take_0)
  then have "set (take k s) \<subseteq> set (takeWhile is_space s)"
    by (metis set_take_subset)
  then have "\<forall>c\<in>set (take k s). is_space c"
    by (meson set_takeWhileD subsetD)
  moreover have "s = take k s @ rest" using k(2) by simp
  ultimately show ?thesis by blast
qed

lemma lit_reads: "rest \<in> set (lit c s) \<Longrightarrow> s = c # rest"
  by (auto simp: lit_def split: list.splits if_splits)


lemma full_match_Some: "full_match ms = Some v \<Longrightarrow> (v, []) \<in> set ms"
  by (auto simp: full_match_def split: list.splits if_splits)

lemma is_space_not_T: "is_space c \<Longrightarrow> c \<noteq> CHR ''T''"
  by (auto simp: is_space_def)

lemma numeric_not_T: "CHR ''T'' \<notin> numeric"
  by (simp add: numeric_def)

lemma strptime_ymd_hms_shape:
  assumes "strptime_ymd_hms ts = Some dt"
  shows "\<exists>c rest. ts = c # rest \<and> is_digit c \<and> CHR ''T'' \<notin> set ts"
proof -
  from assms obtain v where "full_match
        (do {
           (y, s1) \<leftarrow> dir_Y ts;
           s2 \<leftarrow> lit CHR ''-'' s1;
           (m, s3) \<leftarrow> dir_m s2;
           s4 \<leftarrow> lit CHR ''-'' s3;
           (d, s5) \<leftarrow> dir_d s4;
           s6 \<leftarrow> blanks s5;
           (H, s7) \<leftarrow> dir_H s6;
           s8 \<leftarrow> lit CHR '':'' s7;
           (M, s9) \<leftarrow> dir_M s8;
           s10 \<leftarrow> lit CHR '':'' s9;
           (S, s11) \<leftarrow> dir_S s10;
           [((y, m, d, H, M, S), s11)]
         }) = Some v"
    unfolding strptime_ymd_hms_def by (auto split: option.splits)
  from full_match_Some [OF this]
  obtain y s1 s2 m s3 s4 d s5 s6 H s7 s8 M s9 s10 S where chain:
    "(y, s1) \<in> set (dir_Y ts)" "s2 \<in> set (lit CHR ''-'' s1)"
    "(m, s3) \<in> set (dir_m s2)" "s4 \<in> set (lit CHR ''-'' s3)"
    "(d, s5) \<in> set (dir_d s4)" "s6 \<in> set (blanks s5)"
    "(H, s7) \<in> set (dir_H s6)" "s8 \<in> set (lit CHR '':'' s7)"
    "(M, s9) \<in> set (dir_M s8)" "s10 \<in> set (lit CHR '':'' s9)"
    "(S, []) \<in> set (dir_S s10)"
    by (auto simp: set_list_bind)
  from dir_Y_reads [OF chain(1)] obtain c m1 where 1: "ts = c # m1 @ s1" "is_digit c"
    "set m1 \<subseteq> numeric" by blast
  from lit_reads [OF chain(2)] have 2: "s1 = CHR ''-'' # s2" .
  from dir_reads(1) [OF chain(3)] obtain m3 where 3: "s2 = m3 @ s3" "set m3 \<subseteq> numeric" by blast
  from lit_reads [OF chain(4)] have 4: "s3 = CHR ''-'' # s4" .
  from dir_reads(2) [OF chain(5)] obtain m5 where 5: "s4 = m5 @ s5" "set m5 \<subseteq> numeric" by blast
  from blanks_reads [OF chain(6)] obtain m6 where 6: "s5 = m6 @ s6" "\<forall>c\<in>set m6. is_space c" by blast
  from dir_reads(3) [OF chain(7)] obtain m7 where 7: "s6 = m7 @ s7" "set m7 \<subseteq> numeric" by blast
  from lit_reads [OF chain(8)] have 8: "s7 = CHR '':'' # s8" .
  from dir_reads(4) [OF chain(9)] obtain m9 where 9: "s8 = m9 @ s9" "set m9 \<subseteq> numeric" by blast
  from lit_reads [OF chain(10)] have 10: "s9 = CHR '':'' # s10" .
  from dir_reads(5) [OF chain(11)] obtain m11 where 11: "s10 = m11" "set m11 \<subseteq> numeric" by auto
  have dT: "c \<noteq> CHR ''T''" using 1(2) by (auto simp: is_digit_def)
  have nT: "CHR ''T'' \<notin> set m" if "set m \<subseteq> numeric" for m
    using that numeric_not_T by blast
  have "CHR ''T'' \<notin> set ts"
    unfolding 1(1) 2 3(1) 4 5(1) 6(1) 7(1) 8 9(1) 10 11(1)
    using dT nT [OF 1(3)] nT [OF 3(2)] nT [OF 5(2)] nT [OF 7(2)] nT [OF 9(2)] nT [OF 11(2)]
      6(2) is_space_not_T
    by auto
  with 1(1) 1(2) show ?thesis by blast
qed

lemma dir_a_digit: "is_digit c \<Longrightarrow> dir_a (c # rest) = []"
  by (auto simp: dir_a_def names_def any_case_def upper_char_def is_digit_def upt_rec)

lemma strptime_twitter_digit: "is_digit c \<Longrightarrow> strptime_twitter (c # rest) = None"
  by (simp add: strptime_twitter_def dir_a_digit full_match_def)

text \<open>
  Whatever \<open>strptime\<close> reads with the format \<open>%Y-%m-%d %H:%M:%S\<close> starts with a digit
  and holds no \<open>T\<close>; the streaming mapper gives every such timestamp the default key.
\<close>

lemma mapper_ignores_primary_format:
  assumes "timestamp tweet = Some ts" "strptime_ymd_hms ts = Some dt"
  shows "mapper_month_key tweet = ''2024-01''"
proof -
  from strptime_ymd_hms_shape [OF assms(2)] obtain c rest where
    ts: "ts = c # rest" "is_digit c" "CHR ''T'' \<notin> set ts" by blast
  have "strptime_twitter ts = None" unfolding ts(1) using ts(2) by (rule strptime_twitter_digit)
  then show ?thesis
    using assms(1) ts by (simp add: mapper_month_key_def get_str_def Let_def)
qed

text \<open>
  C3. A tweet whose \<open>timestamp\<close> has the form \<open>YYYY-MM-DD HH:MM:SS\<close> gets the
  default key \<open>2024-01\<close> from the streaming mapper, not its month: the string holds no
  \<open>T\<close>, so it is read with the format \<open>%a %b %d %H:%M:%S %z %Y\<close>, which fails.
  \<open>map_hashtags\<close> reads the same timestamp as March 2024.  A timestamp in that second
  format falls back as well when its weekday is \<open>Tue\<close> or \<open>Thu\<close>: it holds a
  \<open>T\<close> and goes to \<open>fromisoformat\<close>.
\<close>

theorem mapper_primary_format_falls_back:
  "mapper_month_key (tweet_at ''2024-03-05 10:00:00'' [TagStr ''AI'']) = ''2024-01''
   \<and> map_tweet ''hashtags'' (tweet_at ''2024-03-05 10:00:00'' [TagStr ''AI''])
       = [mapper_line ''HASHTAG'' ''2024-01'' ''#ai'']
   \<and> map_hashtags (tweet_at ''2024-03-05 10:00:00'' [''AI'']) = [(''2024-03'', ''ai'')]
   \<and> mapper_month_key (tweet_at ''Tue Mar 05 10:00:00 +0000 2024'' [TagStr ''AI'']) = ''2024-01''
   \<and> mapper_month_key (tweet_at ''Wed Mar 06 10:00:00 +0000 2024'' [TagStr ''AI'']) = ''2024-03''
   \<and> mapper_month_key (tweet_at ''2024-03-05T10:00:00Z'' [TagStr ''AI'']) = ''2024-03''"
  by code_simp

section \<open>Properties of the geographic mapper\<close>










end
